theory Spec2Isabelle
  imports Complex_Main
begin

section \<open>JavaScript numbers as decimals\<close>

text \<open>
  A JavaScript \<open>number\<close> is modelled by the decimal it prints as: \<open>Dec m e\<close> is the
  value \<open>m * 10 ^ e\<close>, next to the three non-finite values. Every finite double has such
  a shortest decimal, which is what \<open>Number.prototype.toString\<close> works on. Arithmetic
  goes through the doubles themselves, see below. Negative zero is not told from zero.
\<close>

datatype number = NaN | PosInf | NegInf | Dec int int

definition dec_less :: "int \<Rightarrow> int \<Rightarrow> int \<Rightarrow> int \<Rightarrow> bool" where
  "dec_less m1 e1 m2 e2 =
     (let e = min e1 e2 in m1 * 10 ^ nat (e1 - e) < m2 * 10 ^ nat (e2 - e))"

definition dec_eq :: "int \<Rightarrow> int \<Rightarrow> int \<Rightarrow> int \<Rightarrow> bool" where
  "dec_eq m1 e1 m2 e2 =
     (let e = min e1 e2 in m1 * 10 ^ nat (e1 - e) = m2 * 10 ^ nat (e2 - e))"

text \<open>The comparisons \<open>a < b\<close> and \<open>a <= b\<close> of the language: false whenever a side is NaN.\<close>

fun num_less :: "number \<Rightarrow> number \<Rightarrow> bool" where
  "num_less (Dec m1 e1) (Dec m2 e2) = dec_less m1 e1 m2 e2"
| "num_less (Dec m1 e1) PosInf = True"
| "num_less NegInf (Dec m2 e2) = True"
| "num_less NegInf PosInf = True"
| "num_less _ _ = False"

fun num_eq :: "number \<Rightarrow> number \<Rightarrow> bool" where
  "num_eq (Dec m1 e1) (Dec m2 e2) = dec_eq m1 e1 m2 e2"
| "num_eq PosInf PosInf = True"
| "num_eq NegInf NegInf = True"
| "num_eq _ _ = False"

definition num_le :: "number \<Rightarrow> number \<Rightarrow> bool" where
  "num_le a b = (num_less a b \<or> num_eq a b)"

definition isNaN :: "number \<Rightarrow> bool" where
  "isNaN a = (a = NaN)"

definition isFinite :: "number \<Rightarrow> bool" where
  "isFinite a = (case a of Dec m e \<Rightarrow> True | _ \<Rightarrow> False)"

subsection \<open>Number.prototype.toString\<close>

text \<open>The decimal digits of a non-negative integer, most significant first.\<close>

function digits10 :: "int \<Rightarrow> nat list" where
  "digits10 n = (if n < 10 then [nat n] else digits10 (n div 10) @ [nat (n mod 10)])"
  by pat_completeness auto
termination
  by (relation "measure nat") auto

declare digits10.simps [simp del]

definition digit_char :: "nat \<Rightarrow> char" where
  "digit_char d = ''0123456789'' ! d"

definition dec_string :: "int \<Rightarrow> string" where
  "dec_string n = map digit_char (digits10 n)"

text \<open>Dropping the trailing zeros of the mantissa gives the shortest digit string.\<close>

function strip0 :: "int \<Rightarrow> int \<Rightarrow> int \<times> int" where
  "strip0 s e = (if s \<noteq> 0 \<and> s mod 10 = 0 then strip0 (s div 10) (e + 1) else (s, e))"
  by pat_completeness auto
termination
  by (relation "measure (\<lambda>(s, e). nat \<bar>s\<bar>)") auto

declare strip0.simps [simp del]

text \<open>
  The formatting steps of the language's Number::toString for a positive value
  \<open>s * 10 ^ e\<close>: with \<open>k\<close> digits and \<open>n = e + k\<close>, plain digits when \<open>k \<le> n \<le> 21\<close>, a
  decimal point inside the digits when \<open>0 < n \<le> 21\<close>, leading \<open>0.\<close> and zeros when
  \<open>-6 < n \<le> 0\<close>, and exponent notation otherwise.
\<close>

definition toString_pos :: "int \<Rightarrow> int \<Rightarrow> string" where
  "toString_pos s0 e0 =
     (let (s, e) = strip0 s0 e0;
          ds = dec_string s;
          k = int (length ds);
          n = e + k
      in if k \<le> n \<and> n \<le> 21 then ds @ replicate (nat (n - k)) CHR ''0''
         else if 0 < n \<and> n \<le> 21 then take (nat n) ds @ ''.'' @ drop (nat n) ds
         else if - 6 < n \<and> n \<le> 0 then ''0.'' @ replicate (nat (- n)) CHR ''0'' @ ds
         else let x = n - 1;
                  sg = (if x < 0 then ''-'' else ''+'');
                  ex = dec_string \<bar>x\<bar>
              in if k = 1 then ds @ ''e'' @ sg @ ex
                 else take 1 ds @ ''.'' @ drop 1 ds @ ''e'' @ sg @ ex)"

fun toString :: "number \<Rightarrow> string" where
  "toString NaN = ''NaN''"
| "toString PosInf = ''Infinity''"
| "toString NegInf = ''-Infinity''"
| "toString (Dec m e) =
     (if m = 0 then ''0''
      else (if m < 0 then ''-'' else '''') @ toString_pos \<bar>m\<bar> e)"

text \<open>\<open>String.prototype.split\<close> on a one-character separator.\<close>

fun split :: "char \<Rightarrow> string \<Rightarrow> string list" where
  "split c [] = ['''']"
| "split c (x # xs) =
     (if x = c then '''' # split c xs
      else (case split c xs of [] \<Rightarrow> [x # ''''] | w # ws \<Rightarrow> (x # w) # ws))"

subsection \<open>Arithmetic of doubles\<close>

text \<open>
  The operators \<open>+\<close>, \<open>*\<close> and \<open>/\<close> of the language work on binary64 values and
  round the exact result to the nearest one, ties to the even significand. A finite
  binary64 value is \<open>BFin m x\<close>, the value \<open>m * 2 ^ x\<close> with \<open>\<bar>m\<bar> \<le> 2 ^ 53\<close> and
  \<open>- 1074 \<le> x \<le> 971\<close>. All computations are on integers: a rational is a numerator
  and a positive denominator.
\<close>

datatype binary64 = BNaN | BInf bool | BFin int int

function ilog2 :: "int \<Rightarrow> int" where
  "ilog2 n = (if n < 2 then 0 else 1 + ilog2 (n div 2))"
  by pat_completeness auto
termination
  by (relation "measure nat") auto

declare ilog2.simps [simp del]

function ilog10 :: "int \<Rightarrow> int" where
  "ilog10 n = (if n < 10 then 0 else 1 + ilog10 (n div 10))"
  by pat_completeness auto
termination
  by (relation "measure nat") auto

declare ilog10.simps [simp del]

text \<open>\<open>b ^ t \<le> n / d\<close>, for positive \<open>n\<close> and \<open>d\<close>.\<close>

definition ge_pow :: "int \<Rightarrow> int \<Rightarrow> int \<Rightarrow> int \<Rightarrow> bool" where
  "ge_pow b t n d = (if 0 \<le> t then d * b ^ nat t \<le> n else d \<le> n * b ^ nat (- t))"

text \<open>
  The largest \<open>t\<close> with \<open>b ^ t \<le> n / d\<close>: the difference of the digit counts of \<open>n\<close>
  and \<open>d\<close>, or one less.
\<close>

definition flog :: "int \<Rightarrow> (int \<Rightarrow> int) \<Rightarrow> int \<Rightarrow> int \<Rightarrow> int" where
  "flog b ilog n d = (let t = ilog n - ilog d in if ge_pow b t n d then t else t - 1)"

text \<open>The integer nearest to \<open>n / d\<close>, ties to the even one.\<close>

definition round_half_even :: "int \<Rightarrow> int \<Rightarrow> int" where
  "round_half_even n d =
     (let f = n div d; r = n mod d
      in if 2 * r < d then f else if d < 2 * r then f + 1 else if even f then f else f + 1)"

text \<open>
  The double nearest to \<open>n / d\<close> for positive \<open>n\<close> and \<open>d\<close>: 53 significant bits, fewer
  below \<open>2 ^ - 1022\<close>; there is none from \<open>2 ^ 1024\<close> on, where the result is infinite.
\<close>

definition round64_pos :: "int \<Rightarrow> int \<Rightarrow> (int \<times> int) option" where
  "round64_pos n d =
     (let x = max (flog 2 ilog2 n d - 52) (- 1074);
          m = (if 0 \<le> x then round_half_even n (d * 2 ^ nat x)
               else round_half_even (n * 2 ^ nat (- x)) d)
      in if 971 < x \<or> (x = 971 \<and> 2 ^ 53 \<le> m) then None else Some (m, x))"

definition round64 :: "int \<Rightarrow> int \<Rightarrow> binary64" where
  "round64 n d =
     (if n = 0 then BFin 0 0
      else case round64_pos \<bar>n\<bar> d of
             None \<Rightarrow> BInf (n < 0)
           | Some (m, x) \<Rightarrow> BFin (if n < 0 then - m else m) x)"

text \<open>The value \<open>m * b ^ x\<close> as numerator and denominator.\<close>

definition frac :: "int \<Rightarrow> int \<Rightarrow> int \<Rightarrow> int \<times> int" where
  "frac b m x = (if 0 \<le> x then (m * b ^ nat x, 1) else (m, b ^ nat (- x)))"

text \<open>The double that a number is: the one nearest to its decimal.\<close>

definition to_binary64 :: "number \<Rightarrow> binary64" where
  "to_binary64 a =
     (case a of
        NaN \<Rightarrow> BNaN
      | PosInf \<Rightarrow> BInf False
      | NegInf \<Rightarrow> BInf True
      | Dec m e \<Rightarrow> (let (n, d) = frac 10 m e in round64 n d))"

definition same_double :: "(int \<times> int) option \<Rightarrow> int \<Rightarrow> int \<Rightarrow> bool" where
  "same_double r m x =
     (case r of
        None \<Rightarrow> False
      | Some (m', x') \<Rightarrow> (let y = min x x' in m' * 2 ^ nat (x' - y) = m * 2 ^ nat (x - y)))"

text \<open>
  The shortest decimal of the double \<open>m * 2 ^ x = vn / vd\<close>, as Number::toString asks
  for it: the least number \<open>k\<close> of digits such that a \<open>k\<close>-digit decimal rounds to the
  double. With \<open>k\<close> digits only the two decimals next to the value can do so; of two
  that do, the closer one is taken, the even one in a tie. Seventeen digits always
  suffice.
\<close>

definition candidates :: "int \<Rightarrow> int \<Rightarrow> int \<Rightarrow> int \<Rightarrow> int \<Rightarrow> (int \<times> int) option" where
  "candidates m x vn vd k =
     (let de = flog 10 ilog10 vn vd - k + 1;
          lo = (if 0 \<le> de then vn div (vd * 10 ^ nat de) else (vn * 10 ^ nat (- de)) div vd);
          hi = lo + 1;
          ok = (\<lambda>s. let (n, d) = frac 10 s de in same_double (round64_pos n d) m x);
          twice_v = (if 0 \<le> de then (2 * vn, vd * 10 ^ nat de)
                     else (2 * vn * 10 ^ nat (- de), vd));
          lo_closer = (fst twice_v < (lo + hi) * snd twice_v);
          tie = (fst twice_v = (lo + hi) * snd twice_v)
      in if ok lo \<and> ok hi then
           (if lo_closer \<or> (tie \<and> even lo) then Some (lo, de) else Some (hi, de))
         else if ok lo then Some (lo, de)
         else if ok hi then Some (hi, de)
         else None)"

fun shortest :: "nat \<Rightarrow> int \<Rightarrow> int \<Rightarrow> int \<Rightarrow> int \<Rightarrow> int \<Rightarrow> int \<times> int" where
  "shortest 0 m x vn vd k = (m, x)"
| "shortest (Suc fuel) m x vn vd k =
     (case candidates m x vn vd k of
        Some sd \<Rightarrow> sd
      | None \<Rightarrow> shortest fuel m x vn vd (k + 1))"

definition of_binary64 :: "binary64 \<Rightarrow> number" where
  "of_binary64 b =
     (case b of
        BNaN \<Rightarrow> NaN
      | BInf neg \<Rightarrow> (if neg then NegInf else PosInf)
      | BFin m x \<Rightarrow>
          if m = 0 then Dec 0 0
          else let (vn, vd) = frac 2 \<bar>m\<bar> x;
                   (s0, e0) = shortest 17 \<bar>m\<bar> x vn vd 1;
                   (s, e) = strip0 s0 e0
               in Dec (if m < 0 then - s else s) e)"

fun b64_add :: "binary64 \<Rightarrow> binary64 \<Rightarrow> binary64" where
  "b64_add (BFin m1 x1) (BFin m2 x2) =
     (let x = min x1 x2;
          (n, d) = frac 2 (m1 * 2 ^ nat (x1 - x) + m2 * 2 ^ nat (x2 - x)) x
      in round64 n d)"
| "b64_add BNaN _ = BNaN"
| "b64_add _ BNaN = BNaN"
| "b64_add (BInf s1) (BInf s2) = (if s1 = s2 then BInf s1 else BNaN)"
| "b64_add (BInf s1) _ = BInf s1"
| "b64_add _ (BInf s2) = BInf s2"

fun b64_mul :: "binary64 \<Rightarrow> binary64 \<Rightarrow> binary64" where
  "b64_mul (BFin m1 x1) (BFin m2 x2) =
     (let (n, d) = frac 2 (m1 * m2) (x1 + x2) in round64 n d)"
| "b64_mul BNaN _ = BNaN"
| "b64_mul _ BNaN = BNaN"
| "b64_mul (BInf s1) (BInf s2) = BInf (s1 \<noteq> s2)"
| "b64_mul (BInf s1) (BFin m x) = (if m = 0 then BNaN else BInf (s1 \<noteq> (m < 0)))"
| "b64_mul (BFin m x) (BInf s2) = (if m = 0 then BNaN else BInf (s2 \<noteq> (m < 0)))"

fun b64_div :: "binary64 \<Rightarrow> binary64 \<Rightarrow> binary64" where
  "b64_div (BFin m1 x1) (BFin m2 x2) =
     (if m2 = 0 then (if m1 = 0 then BNaN else BInf (m1 < 0))
      else let (n1, d1) = frac 2 m1 x1;
               (n2, d2) = frac 2 \<bar>m2\<bar> x2
           in round64 ((if m2 < 0 then - n1 else n1) * d2) (d1 * n2))"
| "b64_div BNaN _ = BNaN"
| "b64_div _ BNaN = BNaN"
| "b64_div (BInf s1) (BInf s2) = BNaN"
| "b64_div (BInf s1) (BFin m x) = BInf (s1 \<noteq> (m < 0))"
| "b64_div (BFin m x) (BInf s2) = BFin 0 0"

text \<open>\<open>a + b\<close>, \<open>a * b\<close> and \<open>a / b\<close> of the language.\<close>

definition num_add :: "number \<Rightarrow> number \<Rightarrow> number" where
  "num_add a b = of_binary64 (b64_add (to_binary64 a) (to_binary64 b))"

definition num_mul :: "number \<Rightarrow> number \<Rightarrow> number" where
  "num_mul a b = of_binary64 (b64_mul (to_binary64 a) (to_binary64 b))"

definition num_div :: "number \<Rightarrow> number \<Rightarrow> number" where
  "num_div a b = of_binary64 (b64_div (to_binary64 a) (to_binary64 b))"

section \<open>Input validation\<close>

record validation =
  valid :: bool
  v_error :: "string option"

text \<open>\<open>amount.toString().split(".")[1] || ""\<close>, then its length.\<close>

definition decimalPlaces :: "number \<Rightarrow> nat" where
  "decimalPlaces amount =
     length (case split CHR ''.'' (toString amount) of _ # f # _ \<Rightarrow> f | _ \<Rightarrow> [])"

definition validateAmount :: "number \<Rightarrow> validation" where
  "validateAmount amount =
     (if isNaN amount then
        \<lparr>valid = False, v_error = Some ''Amount must be a valid number''\<rparr>
      else if num_le amount (Dec 0 0) then
        \<lparr>valid = False, v_error = Some ''Amount must be greater than zero''\<rparr>
      else if num_less (Dec 1000000 0) amount then
        \<lparr>valid = False, v_error = Some ''Amount exceeds maximum limit (1,000,000 Pi)''\<rparr>
      else if \<not> isFinite amount then
        \<lparr>valid = False, v_error = Some ''Amount must be finite''\<rparr>
      else if decimalPlaces amount > 7 then
        \<lparr>valid = False, v_error = Some ''Amount cannot have more than 7 decimal places''\<rparr>
      else \<lparr>valid = True, v_error = None\<rparr>)"

definition validateNote :: "string \<Rightarrow> validation" where
  "validateNote note =
     (if length note > 500 then
        \<lparr>valid = False, v_error = Some ''Note cannot exceed 500 characters''\<rparr>
      else \<lparr>valid = True, v_error = None\<rparr>)"

section \<open>The unified state store\<close>

datatype PaymentStatus = PENDING | PAID | FAILED | CANCELLED

text \<open>
  A \<open>Date\<close> is its time value in milliseconds (an invalid date is not modelled); an
  optional field is an option.
\<close>

record Payment =
  payment_id :: string
  merchantId :: string
  amount :: number
  payment_note :: string
  status :: PaymentStatus
  createdAt :: int
  paidAt :: "int option"
  txid :: "string option"

record UserSession =
  isAuthenticated :: bool
  userId :: "string option"
  username :: "string option"
  lastActivity :: int
  currentMerchantId :: string

record MerchantState =
  isSetupComplete :: bool
  m_merchantId :: string
  piUsername :: "string option"
  walletAddress :: "string option"
  connectedAt :: "int option"

record WalletStatus =
  isConnected :: bool
  isPiSDKAvailable :: bool
  isInitialized :: bool
  lastChecked :: int

datatype Theme = Light | Dark

record UIState =
  theme :: Theme
  sidebarOpen :: bool
  lastVisitedRoute :: string

record DomainState =
  masterEnabled :: bool
  domains :: "string \<rightharpoonup> bool"

text \<open>
  The state of the store. The owner-only analytics, which are recomputed from the payment
  list after each write, are left out, and so is the diagnostic log that the logger
  keeps beside the store.
\<close>

record UnifiedState =
  payments :: "Payment list"
  domainState :: DomainState
  merchant :: MerchantState
  session :: UserSession
  wallet :: WalletStatus
  ui :: UIState
  lastUpdated :: int
  version :: string

datatype StateSection =
  SecPayments | SecDomainState | SecMerchant | SecSession | SecWallet | SecUi

datatype notification = Notify StateSection | NotifyAll

text \<open>
  The store object: its state, the creation locks, whether a debounced save is pending,
  and the calls made to the listeners so far (a subscriber is a callback of the caller,
  so the model records which topics were notified, oldest first).
\<close>

record UnifiedStateStore =
  state :: UnifiedState
  processingLocks :: "string set"
  saveTimeout :: bool
  notifications :: "notification list"

datatype js_error = Error string

definition STORAGE_KEY :: string where
  "STORAGE_KEY = ''flashpay_unified_state''"

definition saveToStorage :: "UnifiedStateStore \<Rightarrow> UnifiedStateStore" where
  "saveToStorage S = S\<lparr>saveTimeout := True\<rparr>"

definition notify :: "StateSection \<Rightarrow> UnifiedStateStore \<Rightarrow> UnifiedStateStore" where
  "notify section S = S\<lparr>notifications := notifications S @ [Notify section]\<rparr>"

definition notifyAllListeners :: "UnifiedStateStore \<Rightarrow> UnifiedStateStore" where
  "notifyAllListeners S = S\<lparr>notifications := notifications S @ [NotifyAll]\<rparr>"

text \<open>\<open>this.state.session.currentMerchantId || this.state.merchant.merchantId\<close>\<close>

definition activeMerchantId :: "UnifiedStateStore \<Rightarrow> string" where
  "activeMerchantId S =
     (if currentMerchantId (session (state S)) \<noteq> [] then currentMerchantId (session (state S))
      else m_merchantId (merchant (state S)))"

definition unshift :: "Payment \<Rightarrow> UnifiedStateStore \<Rightarrow> UnifiedStateStore" where
  "unshift p S = S\<lparr>state := (state S)\<lparr>payments := p # payments (state S)\<rparr>\<rparr>"

text \<open>
  \<open>createPayment\<close> of the store. The id comes from the clock and a random suffix, which
  are arguments here. The lock taken at entry is released by the \<open>finally\<close> block.
\<close>

definition store_createPayment ::
  "int \<Rightarrow> string \<Rightarrow> number \<Rightarrow> string \<Rightarrow> UnifiedStateStore
     \<Rightarrow> js_error + Payment \<times> UnifiedStateStore" where
  "store_createPayment now rnd amt nt S =
     (let lockKey = ''create-'' @ dec_string now
      in if lockKey \<in> processingLocks S then
           Inl (Error ''Payment creation already in progress'')
         else
           let S1 = S\<lparr>processingLocks := insert lockKey (processingLocks S)\<rparr>;
               payment = \<lparr>payment_id = dec_string now @ ''-'' @ rnd,
                          merchantId = activeMerchantId S1, amount = amt, payment_note = nt,
                          status = PENDING, createdAt = now, paidAt = None, txid = None\<rparr>;
               S2 = notify SecPayments (saveToStorage (unshift payment S1))
           in Inr (payment, S2\<lparr>processingLocks := processingLocks S2 - {lockKey}\<rparr>))"

definition createPaymentWithId ::
  "string \<Rightarrow> number \<Rightarrow> string \<Rightarrow> int \<Rightarrow> UnifiedStateStore
     \<Rightarrow> js_error + Payment \<times> UnifiedStateStore" where
  "createPaymentWithId i amt nt created S =
     (let lockKey = ''create-'' @ i
      in if lockKey \<in> processingLocks S then
           Inl (Error ''Payment creation already in progress'')
         else
           let S1 = S\<lparr>processingLocks := insert lockKey (processingLocks S)\<rparr>;
               payment = \<lparr>payment_id = i, merchantId = activeMerchantId S1, amount = amt,
                          payment_note = nt, status = PENDING, createdAt = created, paidAt = None,
                          txid = None\<rparr>;
               S2 = notify SecPayments (saveToStorage (unshift payment S1))
           in Inr (payment, S2\<lparr>processingLocks := processingLocks S2 - {lockKey}\<rparr>))"

definition addPayment :: "Payment \<Rightarrow> UnifiedStateStore \<Rightarrow> UnifiedStateStore" where
  "addPayment payment S =
     (case find (\<lambda>p. payment_id p = payment_id payment) (payments (state S)) of
        Some existingPayment \<Rightarrow> S
      | None \<Rightarrow> notify SecPayments (saveToStorage (unshift payment S)))"

definition getPayment :: "UnifiedStateStore \<Rightarrow> string \<Rightarrow> Payment option" where
  "getPayment S i =
     (case find (\<lambda>p. payment_id p = i) (payments (state S)) of
        None \<Rightarrow> None
      | Some payment \<Rightarrow>
          if merchantId payment \<noteq> activeMerchantId S then None else Some payment)"

text \<open>
  The comparator \<open>b.createdAt - a.createdAt\<close> orders by creation time, latest first;
  the sort of the language is stable, as \<open>sort_key\<close> is.
\<close>

definition getAllPayments :: "UnifiedStateStore \<Rightarrow> Payment list" where
  "getAllPayments S =
     sort_key (\<lambda>p. - createdAt p)
       (filter (\<lambda>p. merchantId p = activeMerchantId S) (payments (state S)))"

text \<open>
  \<open>getPayment\<close> hands out the object that \<open>find\<close> met first, and the assignments to its
  fields change that element of the list in place.
\<close>

fun update_first :: "('a \<Rightarrow> bool) \<Rightarrow> ('a \<Rightarrow> 'a) \<Rightarrow> 'a list \<Rightarrow> 'a list" where
  "update_first P f [] = []"
| "update_first P f (x # xs) = (if P x then f x # xs else x # update_first P f xs)"

definition set_status :: "PaymentStatus \<Rightarrow> string option \<Rightarrow> int \<Rightarrow> Payment \<Rightarrow> Payment" where
  "set_status st tx now p =
     (let p1 = p\<lparr>status := st\<rparr>
      in if st = PAID then p1\<lparr>paidAt := Some now, txid := tx\<rparr> else p1)"

definition updatePaymentStatus ::
  "string \<Rightarrow> PaymentStatus \<Rightarrow> string option \<Rightarrow> int \<Rightarrow> UnifiedStateStore
     \<Rightarrow> bool \<times> UnifiedStateStore" where
  "updatePaymentStatus i st tx now S =
     (case getPayment S i of
        None \<Rightarrow> (False, S)
      | Some payment \<Rightarrow>
          if status payment = PAID then (False, S)
          else
            let ps = update_first (\<lambda>p. payment_id p = i) (set_status st tx now)
                       (payments (state S));
                S1 = S\<lparr>state := (state S)\<lparr>payments := ps\<rparr>\<rparr>
            in (True, notify SecPayments (saveToStorage S1)))"

record PaymentStats =
  totalPayments :: nat
  paidPayments :: nat
  pendingPayments :: nat
  failedPayments :: nat
  cancelledPayments :: nat
  totalAmount :: number
  conversionRate :: number

text \<open>
  The counts are list lengths. The total starts from 0 and adds the paid amounts in list
  order, and the rate divides two lengths and multiplies by 100, all in the arithmetic
  of doubles.
\<close>

definition getPaymentStats :: "UnifiedStateStore \<Rightarrow> PaymentStats" where
  "getPaymentStats S =
     (let all = filter (\<lambda>p. merchantId p = activeMerchantId S) (payments (state S));
          paid = filter (\<lambda>p. status p = PAID) all;
          pending = filter (\<lambda>p. status p = PENDING) all;
          failed = filter (\<lambda>p. status p = FAILED) all;
          cancelled = filter (\<lambda>p. status p = CANCELLED) all
      in \<lparr>totalPayments = length all,
          paidPayments = length paid,
          pendingPayments = length pending,
          failedPayments = length failed,
          cancelledPayments = length cancelled,
          totalAmount = foldl (\<lambda>sum p. num_add sum (amount p)) (Dec 0 0) paid,
          conversionRate =
            (if length all > 0
             then num_mul (num_div (Dec (int (length paid)) 0) (Dec (int (length all)) 0))
                    (Dec 100 0)
             else Dec 0 0)\<rparr>)"

subsection \<open>Domain toggles\<close>

definition isMasterEnabled :: "UnifiedStateStore \<Rightarrow> bool" where
  "isMasterEnabled S = masterEnabled (domainState (state S))"

definition setMasterEnabled :: "bool \<Rightarrow> UnifiedStateStore \<Rightarrow> UnifiedStateStore" where
  "setMasterEnabled enabled S =
     notify SecDomainState (saveToStorage
       (S\<lparr>state := (state S)\<lparr>domainState :=
            (domainState (state S))\<lparr>masterEnabled := enabled\<rparr>\<rparr>\<rparr>))"

text \<open>
  The \<open>domains\<close> record is a plain object: the map holds its own properties, and a name
  that is not among them is looked up in \<open>Object.prototype\<close>. Reading one of the names
  below then gives the inherited member, a function or an object, which is not a boolean
  and counts as true in a condition. Assigning a boolean to \<open>__proto__\<close> on an object
  without such a property of its own goes to the inherited setter, which ignores it.
\<close>

definition objectPrototypeMembers :: "string list" where
  "objectPrototypeMembers =
     [''constructor'', ''__defineGetter__'', ''__defineSetter__'', ''hasOwnProperty'',
      ''__lookupGetter__'', ''__lookupSetter__'', ''isPrototypeOf'',
      ''propertyIsEnumerable'', ''toString'', ''valueOf'', ''__proto__'',
      ''toLocaleString'']"

datatype property_value = BoolValue bool | PrototypeMember

fun truthy :: "property_value \<Rightarrow> bool" where
  "truthy (BoolValue b) = b"
| "truthy PrototypeMember = True"

text \<open>\<open>this.state.domainState.domains[domainId] ?? false\<close>\<close>

definition isDomainEnabled :: "UnifiedStateStore \<Rightarrow> string \<Rightarrow> property_value" where
  "isDomainEnabled S domainId =
     (case domains (domainState (state S)) domainId of
        Some b \<Rightarrow> BoolValue b
      | None \<Rightarrow>
          if domainId \<in> set objectPrototypeMembers then PrototypeMember
          else BoolValue False)"

definition setDomainEnabled ::
  "string \<Rightarrow> bool \<Rightarrow> UnifiedStateStore \<Rightarrow> bool \<times> UnifiedStateStore" where
  "setDomainEnabled domainId enabled S =
     (if \<not> masterEnabled (domainState (state S)) then (False, S)
      else
        let ds = domains (domainState (state S));
            ds1 = (if domainId = ''__proto__'' \<and> ds domainId = None then ds
                   else ds(domainId \<mapsto> enabled))
        in (True, notify SecDomainState (saveToStorage
             (S\<lparr>state := (state S)\<lparr>domainState :=
                  (domainState (state S))\<lparr>domains := ds1\<rparr>\<rparr>\<rparr>))))"

subsection \<open>Session\<close>



subsection \<open>Cross-tab synchronisation\<close>

text \<open>
  A storage event carries the key that changed and the new value, if any. The new value
  is a string that \<open>JSON.parse\<close> and the date conversions either turn into a state or
  reject by throwing, which the handler catches.
\<close>

datatype storage_value = Malformed | Snapshot UnifiedState

record StorageEvent =
  key :: string
  newValue :: "storage_value option"

definition onStorageEvent :: "StorageEvent \<Rightarrow> UnifiedStateStore \<Rightarrow> UnifiedStateStore" where
  "onStorageEvent event S =
     (if key event = STORAGE_KEY then
        (case newValue event of
           None \<Rightarrow> S
         | Some Malformed \<Rightarrow> S
         | Some (Snapshot newState) \<Rightarrow>
             if lastUpdated newState > lastUpdated (state S)
             then notifyAllListeners (S\<lparr>state := newState\<rparr>)
             else S)
      else S)"

subsection \<open>The default state\<close>

text \<open>
  The default state has one operational domain, \<open>flashpay\<close>, enabled, and the master
  toggle off. The generated merchant id and the clock at load time are arguments; no
  wallet SDK is present.
\<close>

definition DEFAULT_STATE :: "string \<Rightarrow> int \<Rightarrow> UnifiedState" where
  "DEFAULT_STATE generatedMerchantId now =
     \<lparr>payments = [],
      domainState = \<lparr>masterEnabled = False, domains = [''flashpay'' \<mapsto> True]\<rparr>,
      merchant = \<lparr>isSetupComplete = False, m_merchantId = generatedMerchantId,
                  piUsername = None, walletAddress = None, connectedAt = None\<rparr>,
      session = \<lparr>isAuthenticated = False, userId = None, username = None,
                 lastActivity = now, currentMerchantId = []\<rparr>,
      wallet = \<lparr>isConnected = False, isPiSDKAvailable = False, isInitialized = False,
                lastChecked = now\<rparr>,
      ui = \<lparr>theme = Light, sidebarOpen = False, lastVisitedRoute = ''/''\<rparr>,
      lastUpdated = now,
      version = ''1.0.0''\<rparr>"

text \<open>The store as its field initialisers leave it, with nothing in storage.\<close>

definition new_store :: "string \<Rightarrow> int \<Rightarrow> UnifiedStateStore" where
  "new_store generatedMerchantId now =
     \<lparr>state = DEFAULT_STATE generatedMerchantId now, processingLocks = {},
      saveTimeout = False, notifications = []\<rparr>"

section \<open>The security layer\<close>

record OperationalFlags =
  TESTNET_ONLY :: bool
  REQUIRE_WALLET :: bool
  REQUIRE_DOMAIN_ENABLED :: bool
  REQUIRE_MASTER_ENABLED :: bool
  ENABLE_RATE_LIMITING :: bool
  ENABLE_AUDIT_LOGGING :: bool

definition OPERATIONAL_FLAGS :: OperationalFlags where
  "OPERATIONAL_FLAGS =
     \<lparr>TESTNET_ONLY = True, REQUIRE_WALLET = True, REQUIRE_DOMAIN_ENABLED = True,
      REQUIRE_MASTER_ENABLED = False, ENABLE_RATE_LIMITING = True,
      ENABLE_AUDIT_LOGGING = True\<rparr>"

text \<open>A tracking id is built from the clock and a random suffix, both arguments here.\<close>

definition generateTrackingId :: "int \<Rightarrow> string \<Rightarrow> string" where
  "generateTrackingId now rnd = ''TRK-'' @ dec_string now @ ''-'' @ rnd"

subsection \<open>Error tracking and audit logging\<close>

record OperationError =
  e_trackingId :: string
  e_timestamp :: int
  e_operation :: string
  e_error :: string

definition maxErrors :: nat where
  "maxErrors = 100"

text \<open>\<open>xs.slice(-n)\<close> keeps the last \<open>n\<close> elements.\<close>

definition slice_last :: "nat \<Rightarrow> 'a list \<Rightarrow> 'a list" where
  "slice_last n xs = drop (length xs - n) xs"

definition logError ::
  "string \<Rightarrow> string \<Rightarrow> int \<Rightarrow> string \<Rightarrow> OperationError list
     \<Rightarrow> string \<times> OperationError list" where
  "logError operation err now rnd errors =
     (let trackingId = generateTrackingId now rnd;
          operationError = \<lparr>e_trackingId = trackingId, e_timestamp = now,
                             e_operation = operation, e_error = err\<rparr>;
          errors1 = errors @ [operationError]
      in (trackingId,
          if length errors1 > maxErrors then slice_last maxErrors errors1 else errors1))"

datatype outcome = Success | Failure

record AuditDetails =
  d_paymentId :: string
  d_merchantId :: string
  d_amount :: number
  d_noteLength :: nat

record AuditEntry =
  a_trackingId :: string
  a_timestamp :: int
  a_operation :: string
  a_details :: AuditDetails
  a_outcome :: outcome

definition maxEntries :: nat where
  "maxEntries = 200"

definition audit_log ::
  "string \<Rightarrow> AuditDetails \<Rightarrow> outcome \<Rightarrow> int \<Rightarrow> string \<Rightarrow> AuditEntry list
     \<Rightarrow> string \<times> AuditEntry list" where
  "audit_log operation details oc now rnd entries =
     (if \<not> ENABLE_AUDIT_LOGGING OPERATIONAL_FLAGS then ([], entries)
      else
        let trackingId = generateTrackingId now rnd;
            entry = \<lparr>a_trackingId = trackingId, a_timestamp = now, a_operation = operation,
                     a_details = details, a_outcome = oc\<rparr>;
            entries1 = entries @ [entry]
        in (trackingId,
            if length entries1 > maxEntries then slice_last maxEntries entries1
            else entries1))"

subsection \<open>Rate limiting\<close>

record RateLimitConfig =
  maxAttempts :: int
  windowMs :: int

record RateLimitResult =
  allowed :: bool
  remainingAttempts :: int

text \<open>The limiter's table: the timestamps of the allowed attempts, per key.\<close>

type_synonym RateLimiter = "string \<rightharpoonup> int list"

definition attempts_of :: "RateLimiter \<Rightarrow> string \<Rightarrow> int list" where
  "attempts_of attempts k = (case attempts k of Some ts \<Rightarrow> ts | None \<Rightarrow> [])"

definition check ::
  "string \<Rightarrow> RateLimitConfig \<Rightarrow> int \<Rightarrow> RateLimiter \<Rightarrow> RateLimitResult \<times> RateLimiter" where
  "check k config now attempts =
     (if \<not> ENABLE_RATE_LIMITING OPERATIONAL_FLAGS then
        (\<lparr>allowed = True, remainingAttempts = maxAttempts config\<rparr>, attempts)
      else
        let windowStart = now - windowMs config;
            recentAttempts = filter (\<lambda>timestamp. timestamp > windowStart) (attempts_of attempts k);
            isAllowed = int (length recentAttempts) < maxAttempts config;
            recentAttempts1 = (if isAllowed then recentAttempts @ [now] else recentAttempts)
        in (\<lparr>allowed = isAllowed,
             remainingAttempts = max 0 (maxAttempts config - int (length recentAttempts1))\<rparr>,
            attempts(k \<mapsto> recentAttempts1)))"

text \<open>Successive calls of \<open>check\<close> on one key, at the given times; the answers in order.\<close>

fun checks ::
  "string \<Rightarrow> RateLimitConfig \<Rightarrow> int list \<Rightarrow> RateLimiter \<Rightarrow> bool list \<times> RateLimiter" where
  "checks k config [] attempts = ([], attempts)"
| "checks k config (t # ts) attempts =
     (let (r, attempts1) = check k config t attempts;
          (bs, attempts2) = checks k config ts attempts1
      in (allowed r # bs, attempts2))"

subsection \<open>Security checks\<close>

record SecurityCheck =
  passed :: bool
  reason :: "string option"
  c_trackingId :: string

definition checkMasterToggle :: "UnifiedStateStore \<Rightarrow> string \<Rightarrow> SecurityCheck" where
  "checkMasterToggle S tid =
     (if \<not> REQUIRE_MASTER_ENABLED OPERATIONAL_FLAGS then
        \<lparr>passed = True, reason = None, c_trackingId = tid\<rparr>
      else if \<not> isMasterEnabled S then
        \<lparr>passed = False,
         reason = Some ''System maintenance in progress. Please try again later.'',
         c_trackingId = tid\<rparr>
      else \<lparr>passed = True, reason = None, c_trackingId = tid\<rparr>)"

definition checkDomainAccess :: "UnifiedStateStore \<Rightarrow> string \<Rightarrow> string \<Rightarrow> SecurityCheck" where
  "checkDomainAccess S domainId tid =
     (if \<not> REQUIRE_DOMAIN_ENABLED OPERATIONAL_FLAGS then
        \<lparr>passed = True, reason = None, c_trackingId = tid\<rparr>
      else if \<not> truthy (isDomainEnabled S domainId) then
        \<lparr>passed = False,
         reason = Some (''This service ('' @ domainId
                        @ '') is currently disabled. Please contact support.''),
         c_trackingId = tid\<rparr>
      else \<lparr>passed = True, reason = None, c_trackingId = tid\<rparr>)"

text \<open>
  The three tracking ids that the check and its two sub-checks generate are the
  arguments \<open>tid\<close>, \<open>tidMaster\<close> and \<open>tidDomain\<close>. An absent or empty domain id skips the
  domain check.
\<close>

definition preOperationCheck ::
  "UnifiedStateStore \<Rightarrow> string option \<Rightarrow> string \<Rightarrow> string \<Rightarrow> string \<Rightarrow> SecurityCheck" where
  "preOperationCheck S domainId tid tidMaster tidDomain =
     (let masterCheck = checkMasterToggle S tidMaster
      in if \<not> passed masterCheck then masterCheck
         else
           (case domainId of
              Some d \<Rightarrow>
                if d \<noteq> [] \<and> \<not> passed (checkDomainAccess S d tidDomain)
                then checkDomainAccess S d tidDomain
                else \<lparr>passed = True, reason = None, c_trackingId = tid\<rparr>
            | None \<Rightarrow> \<lparr>passed = True, reason = None, c_trackingId = tid\<rparr>))"

section \<open>The operation layer\<close>

record OperationResult =
  success :: bool
  data :: "Payment option"
  error :: "string option"
  trackingId :: "string option"

definition RATE_LIMITS_CREATE_PAYMENT :: RateLimitConfig where
  "RATE_LIMITS_CREATE_PAYMENT = \<lparr>maxAttempts = 10, windowMs = 60000\<rparr>"

text \<open>
  What the request to the payments endpoint comes back with. The promise is rejected
  with an error, or resolves to a response: its \<open>ok\<close> flag, status text and content-type
  header, its body as text, and what reading \<open>result.payment.id\<close> and
  \<open>result.payment.createdAt\<close> from the parsed body gives: a syntax error of the parser, a
  type error when the body has no payment, or the two fields. The two fields are a string
  and a date here; a body whose payment object lacks them is outside this type.
\<close>

datatype response_json = SyntaxError string | TypeError string | PaymentJson string int

record Response =
  ok :: bool
  statusText :: string
  contentType :: "string option"
  body_text :: string
  body_json :: response_json

datatype fetch_result = Rejected string | Resolved Response

fun startsWith :: "string \<Rightarrow> string \<Rightarrow> bool" where
  "startsWith s [] = True"
| "startsWith [] (c # cs) = False"
| "startsWith (x # xs) (c # cs) = (x = c \<and> startsWith xs cs)"

fun includes_str :: "string \<Rightarrow> string \<Rightarrow> bool" where
  "includes_str [] sub = startsWith [] sub"
| "includes_str (x # xs) sub = (startsWith (x # xs) sub \<or> includes_str xs sub)"

text \<open>
  The exchange with the provider inside the inner \<open>try\<close> block, up to the parsed body:
  the error thrown, or the id and creation time that the provider issued.
\<close>

definition provider_call :: "fetch_result \<Rightarrow> js_error + string \<times> int" where
  "provider_call r =
     (case r of
        Rejected msg \<Rightarrow> Inl (Error msg)
      | Resolved response \<Rightarrow>
          if \<not> ok response then
            Inl (Error (''Failed to create payment: '' @ statusText response))
          else if (case contentType response of
                     None \<Rightarrow> True
                   | Some ct \<Rightarrow> \<not> includes_str ct ''application/json'') then
            Inl (Error (''API returned non-JSON response: '' @ take 100 (body_text response)))
          else
            (case body_json response of
               SyntaxError msg \<Rightarrow> Inl (Error msg)
             | TypeError msg \<Rightarrow> Inl (Error msg)
             | PaymentJson i created \<Rightarrow> Inr (i, created)))"

text \<open>
  The objects the operation works on: the store, the rate limiter, the two logs, and the
  per-payment entries of the local storage cache.
\<close>

record System =
  store :: UnifiedStateStore
  rateLimiter :: RateLimiter
  errorTracker :: "OperationError list"
  auditLogger :: "AuditEntry list"
  localStorage :: "string \<rightharpoonup> Payment"

text \<open>
  What a call takes from outside: the clock, the random suffix drawn at each place that
  generates a tracking id, the provider's answer, and whether writing to the local
  storage throws.
\<close>

record Env =
  env_now :: int
  env_rnd :: "nat \<Rightarrow> string"
  env_response :: fetch_result
  env_storageFails :: bool

text \<open>
  Every failure return has one shape: the error is logged, and the result carries the
  message shown to the caller and the tracking id of the log entry.
\<close>

definition failure ::
  "string \<Rightarrow> string option \<Rightarrow> Env \<Rightarrow> nat \<Rightarrow> System \<Rightarrow> OperationResult \<times> System" where
  "failure logged shown env site sys =
     (let (tid, errors1) =
            logError ''createPayment'' logged (env_now env) (env_rnd env site) (errorTracker sys)
      in (\<lparr>success = False, data = None, error = shown, trackingId = Some tid\<rparr>,
          sys\<lparr>errorTracker := errors1\<rparr>))"

text \<open>\<open>v.error!\<close>: the message of a failed validation.\<close>

definition error_of :: "validation \<Rightarrow> string" where
  "error_of v = (case v_error v of Some e \<Rightarrow> e | None \<Rightarrow> ''undefined'')"

text \<open>\<open>securityCheck.reason || "Security check failed"\<close>\<close>

definition reason_or_default :: "SecurityCheck \<Rightarrow> string" where
  "reason_or_default c =
     (case reason c of
        Some r \<Rightarrow> if r \<noteq> [] then r else ''Security check failed''
      | None \<Rightarrow> ''Security check failed'')"

definition createPayment ::
  "number \<Rightarrow> string \<Rightarrow> Env \<Rightarrow> System \<Rightarrow> OperationResult \<times> System" where
  "createPayment amt nt env sys =
     (let (rateLimitCheck, limiter1) =
            check ''create_payment'' RATE_LIMITS_CREATE_PAYMENT (env_now env) (rateLimiter sys);
          sys1 = sys\<lparr>rateLimiter := limiter1\<rparr>;
          gen = (\<lambda>site. generateTrackingId (env_now env) (env_rnd env site))
      in if \<not> allowed rateLimitCheck then
           failure ''Rate limit exceeded. Please wait before creating another payment.''
             (Some ''Too many requests. Please wait a moment.'') env 0 sys1
         else if \<not> valid (validateAmount amt) then
           failure (error_of (validateAmount amt)) (v_error (validateAmount amt)) env 1 sys1
         else if \<not> valid (validateNote nt) then
           failure (error_of (validateNote nt)) (v_error (validateNote nt)) env 2 sys1
         else
           let securityCheck =
                 preOperationCheck (store sys1) (Some ''flashpay'') (gen 3) (gen 4) (gen 5)
           in if \<not> passed securityCheck then
                failure (reason_or_default securityCheck) (reason securityCheck) env 6 sys1
              else
                (case provider_call (env_response env) of
                   Inl (Error msg) \<Rightarrow> failure msg (Some msg) env 7 sys1
                 | Inr (i, created) \<Rightarrow>
                     (case createPaymentWithId i amt nt created (store sys1) of
                        Inl (Error msg) \<Rightarrow> failure msg (Some msg) env 7 sys1
                      | Inr (payment, store1) \<Rightarrow>
                          let sys2 = sys1\<lparr>store := store1\<rparr>;
                              sys3 = (if env_storageFails env then sys2
                                      else sys2\<lparr>localStorage := (localStorage sys2)
                                             (''flashpay_payment_'' @ payment_id payment
                                                \<mapsto> payment)\<rparr>);
                              (tid, entries1) =
                                audit_log ''createPayment''
                                  \<lparr>d_paymentId = payment_id payment,
                                   d_merchantId = merchantId payment,
                                   d_amount = amt, d_noteLength = length nt\<rparr>
                                  Success (env_now env) (env_rnd env 8) (auditLogger sys3)
                          in (\<lparr>success = True, data = Some payment, error = None,
                               trackingId = Some tid\<rparr>,
                              sys3\<lparr>auditLogger := entries1\<rparr>))))"

section \<open>Notions used to state the properties\<close>

text \<open>The records of the payment list that belong to the active merchant.\<close>

definition ownPayments :: "UnifiedStateStore \<Rightarrow> Payment list" where
  "ownPayments S = filter (\<lambda>p. merchantId p = activeMerchantId S) (payments (state S))"

text \<open>A storage event on the store's own key that carries a well-formed snapshot.\<close>

definition snapshot_event :: "UnifiedState \<Rightarrow> StorageEvent" where
  "snapshot_event s = \<lparr>key = STORAGE_KEY, newValue = Some (Snapshot s)\<rparr>"

text \<open>
  The four guards of \<open>createPayment\<close> in the order it runs them: rate limit, amount,
  note, and the pre-operation check for the \<open>flashpay\<close> domain.
\<close>

definition guardChainPasses :: "number \<Rightarrow> string \<Rightarrow> Env \<Rightarrow> System \<Rightarrow> bool" where
  "guardChainPasses amt nt env sys =
     (allowed (fst (check ''create_payment'' RATE_LIMITS_CREATE_PAYMENT (env_now env)
                      (rateLimiter sys)))
      \<and> valid (validateAmount amt)
      \<and> valid (validateNote nt)
      \<and> passed (preOperationCheck (store sys) (Some ''flashpay'')
                  (generateTrackingId (env_now env) (env_rnd env 3))
                  (generateTrackingId (env_now env) (env_rnd env 4))
                  (generateTrackingId (env_now env) (env_rnd env 5))))"


text \<open>
  The amount rule in the words of the specification: a finite number \<open>a\<close> with
  \<open>0 < a \<le> 1,000,000\<close> and at most 7 fractional digits. The fractional digits of a
  decimal are those left of its exponent once trailing zeros are dropped.
\<close>

definition fractionDigits :: "number \<Rightarrow> nat" where
  "fractionDigits a =
     (case a of
        Dec m e \<Rightarrow> if m = 0 then 0 else nat (- snd (strip0 \<bar>m\<bar> e))
      | _ \<Rightarrow> 0)"

definition spec_validAmount :: "number \<Rightarrow> bool" where
  "spec_validAmount a =
     (isFinite a \<and> num_less (Dec 0 0) a \<and> num_le a (Dec 1000000 0) \<and> fractionDigits a \<le> 7)"

subsection \<open>Example stores and calls\<close>

definition record_pay_1 :: Payment where
  "record_pay_1 =
     \<lparr>payment_id = ''pay_1'', merchantId = ''merchant_1'', amount = Dec 5 0,
      payment_note = ''coffee'', status = PAID, createdAt = 1000, paidAt = Some 2000,
      txid = Some ''tx_1''\<rparr>"

definition record_pay_2 :: Payment where
  "record_pay_2 =
     \<lparr>payment_id = ''pay_2'', merchantId = ''merchant_2'', amount = Dec 25 (- 1),
      payment_note = ''tea'', status = PENDING, createdAt = 1500, paidAt = None,
      txid = None\<rparr>"

text \<open>One store holding a record of each of two merchants; \<open>merchant_1\<close> is active.\<close>

definition two_merchant_store :: UnifiedStateStore where
  "two_merchant_store =
     (new_store ''merchant_1'' 1000)
       \<lparr>state := (DEFAULT_STATE ''merchant_1'' 1000)
          \<lparr>payments := [record_pay_2, record_pay_1]\<rparr>\<rparr>"

text \<open>
  A payment is created under a provider-issued id and paid, and a second creation then
  arrives with the same id.
\<close>

definition paid_then_recreated :: UnifiedStateStore where
  "paid_then_recreated =
     (case createPaymentWithId ''pay_1'' (Dec 5 0) ''coffee'' 1000
             (new_store ''merchant_1'' 1000) of
        Inl e \<Rightarrow> new_store ''merchant_1'' 1000
      | Inr (p1, S1) \<Rightarrow>
          (case createPaymentWithId ''pay_1'' (Dec 5 0) ''coffee'' 1000
                  (snd (updatePaymentStatus ''pay_1'' PAID (Some ''tx_1'') 2000 S1)) of
             Inl e \<Rightarrow> S1
           | Inr (p2, S2) \<Rightarrow> S2))"


definition initial_system :: System where
  "initial_system =
     \<lparr>store = new_store ''merchant_1'' 1000, rateLimiter = Map.empty, errorTracker = [],
      auditLogger = [], localStorage = Map.empty\<rparr>"

text \<open>A call during which the provider issues the id \<open>i\<close>.\<close>

definition env_issuing :: "string \<Rightarrow> int \<Rightarrow> Env" where
  "env_issuing i t =
     \<lparr>env_now = t, env_rnd = (\<lambda>site. ''R4ND0M''),
      env_response = Resolved \<lparr>ok = True, statusText = ''OK'',
        contentType = Some ''application/json; charset=utf-8'', body_text = [],
        body_json = PaymentJson i t\<rparr>,
      env_storageFails = False\<rparr>"





text \<open>
  A store of \<open>merchant_1\<close> with seven records of its own (three paid, of 0.1, 0.2 and
  0.3) and one paid record of another merchant.
\<close>

definition stats_record :: "string \<Rightarrow> string \<Rightarrow> number \<Rightarrow> PaymentStatus \<Rightarrow> Payment" where
  "stats_record i m a st =
     \<lparr>payment_id = i, merchantId = m, amount = a, payment_note = [], status = st,
      createdAt = 1000, paidAt = None, txid = None\<rparr>"

definition mixed_store :: UnifiedStateStore where
  "mixed_store =
     (new_store ''merchant_1'' 1000)
       \<lparr>state := (DEFAULT_STATE ''merchant_1'' 1000)
          \<lparr>payments :=
             [stats_record ''a'' ''merchant_1'' (Dec 1 (- 1)) PAID,
              stats_record ''f'' ''merchant_2'' (Dec 50 0) PAID,
              stats_record ''b'' ''merchant_1'' (Dec 2 (- 1)) PAID,
              stats_record ''c'' ''merchant_1'' (Dec 7 0) PENDING,
              stats_record ''d'' ''merchant_1'' (Dec 3 (- 1)) PAID,
              stats_record ''e'' ''merchant_1'' (Dec 1 0) FAILED,
              stats_record ''g'' ''merchant_1'' (Dec 2 0) CANCELLED,
              stats_record ''h'' ''merchant_1'' (Dec 4 0) PENDING]\<rparr>\<rparr>"


section \<open>Lemmas on the lookup by id\<close>

lemma find_Some_id: "find (\<lambda>q. f q = i) xs = Some p \<Longrightarrow> f p = i \<and> p \<in> set xs"
  by (induction xs) (auto split: if_splits)

lemma find_None_id: "find (\<lambda>q. f q = i) xs = None \<longleftrightarrow> (\<forall>p \<in> set xs. f p \<noteq> i)"
  by (induction xs) auto

lemma length_update_first: "length (update_first P f xs) = length xs"
  by (induction xs) auto

lemma update_first_nth:
  "k < length xs \<Longrightarrow> update_first P f xs ! k \<noteq> xs ! k \<Longrightarrow> find P xs = Some (xs ! k)"
proof (induction xs arbitrary: k)
  case Nil
  then show ?case by simp
next
  case (Cons x xs)
  then show ?case by (cases k) (auto split: if_splits)
qed

section \<open>The double-payment guard\<close>

text \<open>
  What the guard does in every store: the call is rejected, and the store left as it
  was, whenever the lookup by the id resolves nothing or resolves a PAID record; and no
  call changes the place of a record, a PAID record or a record of another merchant.
\<close>

lemma updatePaymentStatus_rejects:
  "getPayment S i = None \<or> (\<exists>p. getPayment S i = Some p \<and> status p = PAID)
     \<Longrightarrow> updatePaymentStatus i st tx now S = (False, S)"
  by (auto simp: updatePaymentStatus_def)

lemma updatePaymentStatus_keeps_paid_and_foreign:
  assumes k: "k < length (payments (state S))"
    and keep: "status (payments (state S) ! k) = PAID
               \<or> merchantId (payments (state S) ! k) \<noteq> activeMerchantId S"
  shows "length (payments (state (snd (updatePaymentStatus i st tx now S))))
           = length (payments (state S))
       \<and> payments (state (snd (updatePaymentStatus i st tx now S))) ! k
           = payments (state S) ! k"
proof (cases "getPayment S i")
  case None
  then show ?thesis by (simp add: updatePaymentStatus_def)
next
  case (Some p)
  show ?thesis
  proof (cases "status p = PAID")
    case True
    with Some show ?thesis by (simp add: updatePaymentStatus_def)
  next
    case False
    let ?ps = "payments (state S)"
    let ?ps' = "update_first (\<lambda>q. payment_id q = i) (set_status st tx now) ?ps"
    from Some have found: "find (\<lambda>q. payment_id q = i) ?ps = Some p"
      and own: "merchantId p = activeMerchantId S"
      by (auto simp: getPayment_def split: option.splits if_splits)
    have "?ps' ! k = ?ps ! k"
    proof (rule ccontr)
      assume "?ps' ! k \<noteq> ?ps ! k"
      with k have "find (\<lambda>q. payment_id q = i) ?ps = Some (?ps ! k)"
        by (rule update_first_nth)
      with found have "?ps ! k = p" by simp
      with keep False own show False by simp
    qed
    moreover have "payments (state (snd (updatePaymentStatus i st tx now S))) = ?ps'"
      using Some False
      by (simp add: updatePaymentStatus_def Let_def notify_def saveToStorage_def)
    ultimately show ?thesis by (simp add: length_update_first)
  qed
qed

text \<open>
  Claim C1 says that for every stored payment whose status is PAID, a call of
  \<open>updatePaymentStatus\<close> on its id returns false and mutates nothing. The guard tests
  the record that the lookup resolves, and a creation under an id that is already
  stored puts a new PENDING record in front of the stored one (claim C2). So after a
  creation, the payment and a second creation under \<open>pay_1\<close>, the PAID record is still
  stored, and the call for \<open>pay_1\<close> returns true: the payment is paid a second time,
  under a second txid.
\<close>

theorem paid_guard_bypassed_after_recreation:
  "map payment_id (payments (state paid_then_recreated)) = [''pay_1'', ''pay_1'']
   \<and> map status (payments (state paid_then_recreated)) = [PENDING, PAID]
   \<and> map txid (payments (state paid_then_recreated)) = [None, Some ''tx_1'']
   \<and> fst (updatePaymentStatus ''pay_1'' PAID (Some ''tx_2'') 3000 paid_then_recreated) = True
   \<and> map status (payments (state (snd
        (updatePaymentStatus ''pay_1'' PAID (Some ''tx_2'') 3000 paid_then_recreated))))
       = [PAID, PAID]
   \<and> map txid (payments (state (snd
        (updatePaymentStatus ''pay_1'' PAID (Some ''tx_2'') 3000 paid_then_recreated))))
       = [Some ''tx_2'', Some ''tx_1'']"
  by code_simp

section \<open>Creation under a provider-issued id\<close>

text \<open>
  Claim C2 says that a second \<open>createPayment\<close> carrying the same id leaves one record
  with that id in the ledger. In the code each of the two calls passes the guards,
  receives the id \<open>pay_1\<close> from the provider and prepends a record: both succeed, and the
  ledger then holds two records with that id.
\<close>

theorem createPayment_same_id_two_records:
  "success (fst (createPayment (Dec 5 0) ''coffee'' (env_issuing ''pay_1'' 5000) initial_system))
   \<and> success (fst (createPayment (Dec 5 0) ''coffee'' (env_issuing ''pay_1'' 6000)
        (snd (createPayment (Dec 5 0) ''coffee'' (env_issuing ''pay_1'' 5000) initial_system))))
   \<and> map payment_id (payments (state (store
        (snd (createPayment (Dec 5 0) ''coffee'' (env_issuing ''pay_1'' 6000)
          (snd (createPayment (Dec 5 0) ''coffee'' (env_issuing ''pay_1'' 5000)
                 initial_system)))))))
       = [''pay_1'', ''pay_1'']"
  by code_simp

text \<open>
  The store's own write has no check for an existing id: whenever no creation with that
  id is in progress it prepends, whatever the list holds.
\<close>

lemma createPaymentWithId_prepends:
  "''create-'' @ i \<notin> processingLocks S \<Longrightarrow>
     \<exists>p S'. createPaymentWithId i amt nt created S = Inr (p, S')
       \<and> payment_id p = i \<and> payments (state S') = p # payments (state S)
       \<and> processingLocks S' = processingLocks S"
  by (auto simp: createPaymentWithId_def Let_def notify_def saveToStorage_def unshift_def)

text \<open>The sibling \<open>addPayment\<close> does skip a record whose id is already stored.\<close>

lemma addPayment_existing_id:
  "p \<in> set (payments (state S)) \<Longrightarrow> payment_id p = payment_id payment
     \<Longrightarrow> addPayment payment S = S"
  by (auto simp: addPayment_def find_None_id split: option.splits)

section \<open>Merchant isolation on read\<close>

text \<open>
  Claim C3. In every store state, with any active merchant: \<open>getAllPayments\<close> returns
  only records whose merchant is the active one; whatever \<open>getPayment\<close> returns belongs
  to the active merchant and has the id asked for; \<open>getPayment\<close> returns nothing when
  the record found under the id belongs to another merchant, and likewise when no record
  of the active merchant has that id. This holds with foreign records in the list.
\<close>

theorem merchant_isolation_on_read:
  "(\<forall>p \<in> set (getAllPayments S). merchantId p = activeMerchantId S)
   \<and> (\<forall>i p. getPayment S i = Some p \<longrightarrow> merchantId p = activeMerchantId S \<and> payment_id p = i)
   \<and> (\<forall>i p. find (\<lambda>q. payment_id q = i) (payments (state S)) = Some p
              \<and> merchantId p \<noteq> activeMerchantId S \<longrightarrow> getPayment S i = None)
   \<and> (\<forall>i. (\<forall>p \<in> set (payments (state S)).
               payment_id p = i \<longrightarrow> merchantId p \<noteq> activeMerchantId S)
            \<longrightarrow> getPayment S i = None)"
  by (auto simp: getAllPayments_def getPayment_def
      split: option.splits if_splits dest: find_Some_id)

theorem merchant_isolation_on_read_witness:
  "record_pay_2 \<in> set (payments (state two_merchant_store))
   \<and> merchantId record_pay_2 \<noteq> activeMerchantId two_merchant_store
   \<and> getPayment two_merchant_store ''pay_2'' = None
   \<and> getPayment two_merchant_store ''pay_1'' = Some record_pay_1
   \<and> merchantId record_pay_1 = activeMerchantId two_merchant_store
   \<and> getAllPayments two_merchant_store = [record_pay_1]"
proof -
  have a: "record_pay_2 \<in> set (payments (state two_merchant_store))"
    by (simp add: two_merchant_store_def)
  have f: "find (\<lambda>q. payment_id q = ''pay_2'') (payments (state two_merchant_store))
             = Some record_pay_2"
    by (simp add: two_merchant_store_def record_pay_2_def)
  have m: "merchantId record_pay_2 \<noteq> activeMerchantId two_merchant_store"
    by (simp add: two_merchant_store_def record_pay_2_def activeMerchantId_def
        new_store_def DEFAULT_STATE_def)
  have g: "getPayment two_merchant_store ''pay_1'' = Some record_pay_1"
    by (simp add: getPayment_def two_merchant_store_def record_pay_1_def record_pay_2_def
        activeMerchantId_def new_store_def DEFAULT_STATE_def)
  have l: "getAllPayments two_merchant_store = [record_pay_1]"
    by (simp add: getAllPayments_def two_merchant_store_def record_pay_1_def record_pay_2_def
        activeMerchantId_def new_store_def DEFAULT_STATE_def)
  from merchant_isolation_on_read[of two_merchant_store] f m
  have n: "getPayment two_merchant_store ''pay_2'' = None"
    by blast
  from merchant_isolation_on_read[of two_merchant_store] g
  have o: "merchantId record_pay_1 = activeMerchantId two_merchant_store"
    by blast
  from a m n g o l show ?thesis by simp
qed

section \<open>Domain toggles\<close>

text \<open>
  Claim C4, as the code has it. The master toggle locks the individual toggles and does
  not mask them: while the master is off, \<open>setDomainEnabled\<close> returns false and changes
  nothing. \<open>isDomainEnabled\<close> returns the stored flag of a domain that has one, and
  switching the master on or off does not change what it returns. For an id without a
  stored flag it returns false, provided the id is not the name of a member that every
  object inherits.
\<close>

theorem master_locks_domain_toggles:
  "(\<not> masterEnabled (domainState (state S)) \<longrightarrow> setDomainEnabled d e S = (False, S))
   \<and> isDomainEnabled (setMasterEnabled b S) d = isDomainEnabled S d
   \<and> (\<forall>f. domains (domainState (state S)) d = Some f \<longrightarrow> isDomainEnabled S d = BoolValue f)
   \<and> (domains (domainState (state S)) d = None \<and> d \<notin> set objectPrototypeMembers
        \<longrightarrow> isDomainEnabled S d = BoolValue False)"
  by (simp add: setDomainEnabled_def isDomainEnabled_def setMasterEnabled_def notify_def
      saveToStorage_def)

theorem master_locks_domain_toggles_witness:
  "\<not> masterEnabled (domainState (state (new_store ''merchant_1'' 1000)))
   \<and> setDomainEnabled ''flashpay'' False (new_store ''merchant_1'' 1000)
       = (False, new_store ''merchant_1'' 1000)
   \<and> domains (domainState (state (new_store ''merchant_1'' 1000))) ''flashpay'' = Some True
   \<and> isDomainEnabled (new_store ''merchant_1'' 1000) ''flashpay'' = BoolValue True
   \<and> domains (domainState (state (new_store ''merchant_1'' 1000))) ''auctions'' = None
   \<and> ''auctions'' \<notin> set objectPrototypeMembers
   \<and> isDomainEnabled (new_store ''merchant_1'' 1000) ''auctions'' = BoolValue False"
proof -
  let ?S = "new_store ''merchant_1'' 1000"
  have a: "\<not> masterEnabled (domainState (state ?S))"
    by (simp add: new_store_def DEFAULT_STATE_def)
  have b: "domains (domainState (state ?S)) ''flashpay'' = Some True"
    by (simp add: new_store_def DEFAULT_STATE_def)
  have c: "domains (domainState (state ?S)) ''auctions'' = None"
    by (simp add: new_store_def DEFAULT_STATE_def)
  have d: "''auctions'' \<notin> set objectPrototypeMembers"
    by (simp add: objectPrototypeMembers_def)
  from master_locks_domain_toggles[of ?S "''flashpay''" False] a b
  have e: "setDomainEnabled ''flashpay'' False ?S = (False, ?S)"
    and f: "isDomainEnabled ?S ''flashpay'' = BoolValue True"
    by blast+
  from master_locks_domain_toggles[of ?S "''auctions''"] c d
  have g: "isDomainEnabled ?S ''auctions'' = BoolValue False"
    by blast
  from a b c d e f g show ?thesis by simp
qed

text \<open>
  The claim as stated fails in the default state: the master toggle is off and the
  \<open>flashpay\<close> domain reads as enabled.
\<close>

theorem domain_enabled_while_master_off_counterexample:
  "masterEnabled (domainState (state (new_store ''merchant_1'' 1000))) = False
   \<and> isDomainEnabled (new_store ''merchant_1'' 1000) ''flashpay'' = BoolValue True"
  by (simp add: new_store_def DEFAULT_STATE_def isDomainEnabled_def)

text \<open>
  An id that is the name of an inherited member reads as that member, which passes the
  domain check although no flag is stored for it.
\<close>

lemma inherited_member_reads_truthy:
  "isDomainEnabled (new_store ''merchant_1'' 1000) ''constructor'' = PrototypeMember"
  "passed (checkDomainAccess (new_store ''merchant_1'' 1000) ''constructor'' tid)"
  by (simp_all add: new_store_def DEFAULT_STATE_def isDomainEnabled_def
      objectPrototypeMembers_def checkDomainAccess_def OPERATIONAL_FLAGS_def)

section \<open>The rate limiter\<close>

lemma check_unfolded:
  "check k c t R =
     (let recent = filter (\<lambda>x. t - windowMs c < x) (attempts_of R k);
          a = int (length recent) < maxAttempts c;
          recent1 = (if a then recent @ [t] else recent)
      in (\<lparr>allowed = a, remainingAttempts = max 0 (maxAttempts c - int (length recent1))\<rparr>,
          R(k \<mapsto> recent1)))"
  by (simp add: check_def OPERATIONAL_FLAGS_def Let_def)

lemma attempts_of_upd: "attempts_of (R(k \<mapsto> xs)) k = xs"
  by (simp add: attempts_of_def)

text \<open>
  A run of calls whose times lie within one window of each other, on a table whose
  entries for the key are, at each of these times, pruned to the same list \<open>xs\<close>: the
  \<open>j\<close>-th call is allowed exactly while fewer than \<open>N\<close> timestamps are held, and the
  allowed calls are the ones recorded.
\<close>

lemma checks_window:
  assumes "\<forall>t \<in> set ts. filter (\<lambda>x. t - windowMs c < x) (attempts_of R k) = xs"
    and "\<forall>t \<in> set ts. \<forall>t' \<in> set ts. t - windowMs c < t'"
    and "maxAttempts c = int N"
  shows "fst (checks k c ts R) = map (\<lambda>j. length xs + j < N) [0..<length ts]
       \<and> (ts \<noteq> [] \<longrightarrow> attempts_of (snd (checks k c ts R)) k = xs @ take (N - length xs) ts)"
  using assms
proof (induction ts arbitrary: xs R)
  case Nil
  then show ?case by simp
next
  case (Cons t ts)
  define xs1 where "xs1 = (if length xs < N then xs @ [t] else xs)"
  define R1 where "R1 = R(k \<mapsto> xs1)"
  have f: "filter (\<lambda>x. t - windowMs c < x) (attempts_of R k) = xs"
    using Cons.prems(1) by simp
  have step: "check k c t R =
      (\<lparr>allowed = length xs < N,
        remainingAttempts = max 0 (maxAttempts c - int (length xs1))\<rparr>, R1)"
    unfolding xs1_def R1_def by (simp add: check_unfolded f Cons.prems(3) Let_def)
  have xs_fresh: "\<forall>t' \<in> set ts. \<forall>x \<in> set xs. t' - windowMs c < x"
  proof (intro ballI)
    fix t' x assume "t' \<in> set ts" "x \<in> set xs"
    then have "x \<in> set (filter (\<lambda>x. t' - windowMs c < x) (attempts_of R k))"
      using Cons.prems(1) by simp
    then show "t' - windowMs c < x" by simp
  qed
  have t_fresh: "\<forall>t' \<in> set ts. t' - windowMs c < t"
    using Cons.prems(2) by simp
  have "attempts_of R1 k = xs1"
    by (simp add: R1_def attempts_of_upd)
  moreover have "\<forall>t' \<in> set ts. \<forall>x \<in> set xs1. t' - windowMs c < x"
    using xs_fresh t_fresh by (auto simp: xs1_def)
  ultimately have pre1:
    "\<forall>t' \<in> set ts. filter (\<lambda>x. t' - windowMs c < x) (attempts_of R1 k) = xs1"
    by (simp add: filter_id_conv)
  have pre2: "\<forall>t \<in> set ts. \<forall>t' \<in> set ts. t - windowMs c < t'"
    using Cons.prems(2) by simp
  note IH = Cons.IH[OF pre1 pre2 Cons.prems(3)]
  have unfold: "checks k c (t # ts) R =
      ((length xs < N) # fst (checks k c ts R1), snd (checks k c ts R1))"
    by (simp add: step split_beta)
  have upt: "[0..<length (t # ts)] = 0 # map Suc [0..<length ts]"
    by (simp add: upt_conv_Cons map_Suc_upt del: upt_Suc)
  have flags: "fst (checks k c (t # ts) R) = map (\<lambda>j. length xs + j < N) [0..<length (t # ts)]"
  proof (cases "length xs < N")
    case True
    then have "length xs1 = Suc (length xs)" by (simp add: xs1_def)
    with IH True show ?thesis unfolding unfold upt by (simp add: comp_def)
  next
    case False
    then have "length xs1 = length xs" by (simp add: xs1_def)
    with IH False show ?thesis unfolding unfold upt by (simp add: comp_def)
  qed
  have stored: "attempts_of (snd (checks k c (t # ts) R)) k = xs @ take (N - length xs) (t # ts)"
  proof (cases "ts = []")
    case True
    have "attempts_of (snd (checks k c (t # ts) R)) k = xs1"
      unfolding unfold using True by (simp add: R1_def attempts_of_upd)
    also have "xs1 = xs @ take (N - length xs) (t # ts)"
      using True by (auto simp: xs1_def take_Cons')
    finally show ?thesis .
  next
    case False
    with IH have "attempts_of (snd (checks k c ts R1)) k = xs1 @ take (N - length xs1) ts"
      by blast
    moreover have "xs1 @ take (N - length xs1) ts = xs @ take (N - length xs) (t # ts)"
      by (auto simp: xs1_def take_Cons')
    ultimately show ?thesis unfolding unfold by simp
  qed
  from flags stored show ?case by simp
qed

text \<open>
  Claim C5, as the code has it. Take a key and a configuration with \<open>maxAttempts = N\<close>
  and \<open>windowMs = W\<close>, and \<open>N + 1\<close> successive calls of \<open>check\<close> at non-decreasing times
  that span less than \<open>W\<close>, on a table whose timestamps for the key are all at least \<open>W\<close>
  older than the first call (an empty window). The first \<open>N\<close> calls are allowed and the
  last is denied; the table then holds the times of the allowed calls and nothing else.
  If \<open>N \<ge> 1\<close>, a later call at a time \<open>t'\<close> by which \<open>W\<close> has passed since every recorded
  timestamp is allowed again, and the pruned table holds \<open>t'\<close> alone.
\<close>

theorem rate_limiter_window:
  assumes cfg: "maxAttempts c = int N" "windowMs c = W"
    and ts: "sorted ts" "length ts = Suc N" "last ts - hd ts < W"
    and empty: "\<forall>x \<in> set (attempts_of R k). x \<le> hd ts - W"
  shows "fst (checks k c ts R) = replicate N True @ [False]
       \<and> attempts_of (snd (checks k c ts R)) k = take N ts
       \<and> (0 < N \<and> (\<forall>x \<in> set (take N ts). x \<le> t' - W) \<longrightarrow>
            allowed (fst (check k c t' (snd (checks k c ts R))))
          \<and> attempts_of (snd (check k c t' (snd (checks k c ts R)))) k = [t'])"
proof -
  have ne: "ts \<noteq> []" using ts(2) by auto
  have bounds: "\<forall>t \<in> set ts. hd ts \<le> t \<and> t \<le> last ts"
  proof
    fix t assume "t \<in> set ts"
    then obtain i where i: "i < length ts" "ts ! i = t" by (auto simp: in_set_conv_nth)
    have "ts ! 0 \<le> ts ! i" using ts(1) i(1) by (simp add: sorted_nth_mono)
    moreover have "ts ! i \<le> ts ! (length ts - 1)" using ts(1) i(1) by (simp add: sorted_nth_mono)
    ultimately show "hd ts \<le> t \<and> t \<le> last ts"
      using ne i(2) by (simp add: hd_conv_nth last_conv_nth)
  qed
  have pre1: "\<forall>t \<in> set ts. filter (\<lambda>x. t - windowMs c < x) (attempts_of R k) = []"
    using empty bounds cfg(2) by (fastforce simp: filter_empty_conv)
  have pre2: "\<forall>t \<in> set ts. \<forall>t' \<in> set ts. t - windowMs c < t'"
  proof (intro ballI)
    fix t t' assume "t \<in> set ts" "t' \<in> set ts"
    then have "t \<le> last ts" "hd ts \<le> t'" using bounds by auto
    then show "t - windowMs c < t'" using ts(3) cfg(2) by linarith
  qed
  from checks_window[OF pre1 pre2 cfg(1)] ne
  have flags: "fst (checks k c ts R) = map (\<lambda>j. j < N) [0..<Suc N]"
    and stored: "attempts_of (snd (checks k c ts R)) k = take N ts"
    using ts(2) by simp_all
  have "map (\<lambda>j. j < N) [0..<N] = map (\<lambda>j. True) [0..<N]"
    by (rule map_cong) auto
  then have "map (\<lambda>j. j < N) [0..<Suc N] = replicate N True @ [False]"
    by (simp add: map_replicate_const)
  with flags have A: "fst (checks k c ts R) = replicate N True @ [False]" by simp
  have C: "0 < N \<and> (\<forall>x \<in> set (take N ts). x \<le> t' - W) \<longrightarrow>
            allowed (fst (check k c t' (snd (checks k c ts R))))
          \<and> attempts_of (snd (check k c t' (snd (checks k c ts R)))) k = [t']"
  proof
    assume h: "0 < N \<and> (\<forall>x \<in> set (take N ts). x \<le> t' - W)"
    then have "filter (\<lambda>x. t' - windowMs c < x) (attempts_of (snd (checks k c ts R)) k) = []"
      using stored cfg(2) by (fastforce simp: filter_empty_conv)
    then show "allowed (fst (check k c t' (snd (checks k c ts R))))
          \<and> attempts_of (snd (check k c t' (snd (checks k c ts R)))) k = [t']"
      using h cfg(1) by (simp add: check_unfolded Let_def attempts_of_upd)
  qed
  from A stored C show ?thesis by blast
qed

theorem rate_limiter_window_witness:
  "fst (checks ''create_payment'' \<lparr>maxAttempts = 2, windowMs = 1000\<rparr> [0, 10, 20] Map.empty)
     = [True, True, False]
   \<and> attempts_of (snd (checks ''create_payment'' \<lparr>maxAttempts = 2, windowMs = 1000\<rparr>
        [0, 10, 20] Map.empty)) ''create_payment'' = [0, 10]
   \<and> allowed (fst (check ''create_payment'' \<lparr>maxAttempts = 2, windowMs = 1000\<rparr> 1010
        (snd (checks ''create_payment'' \<lparr>maxAttempts = 2, windowMs = 1000\<rparr>
           [0, 10, 20] Map.empty))))
   \<and> attempts_of (snd (check ''create_payment'' \<lparr>maxAttempts = 2, windowMs = 1000\<rparr> 1010
        (snd (checks ''create_payment'' \<lparr>maxAttempts = 2, windowMs = 1000\<rparr>
           [0, 10, 20] Map.empty)))) ''create_payment'' = [1010]"
proof -
  let ?c = "\<lparr>maxAttempts = 2, windowMs = 1000\<rparr>"
  have h1: "maxAttempts ?c = int 2" by simp
  have h2: "windowMs ?c = 1000" by simp
  have h3: "sorted [0, 10, 20 :: int]" by simp
  have h4: "length [0, 10, 20 :: int] = Suc 2" by simp
  have h5: "last [0, 10, 20 :: int] - hd [0, 10, 20] < 1000" by simp
  have h6: "\<forall>x \<in> set (attempts_of Map.empty ''create_payment''). x \<le> hd [0, 10, 20 :: int] - 1000"
    by (simp add: attempts_of_def)
  have n2: "take 2 [0, 10, 20 :: int] = [0, 10]" by (simp add: numeral_2_eq_2)
  from rate_limiter_window[OF h1 h2 h3 h4 h5 h6, of 1010]
  show ?thesis by (simp add: n2 numeral_2_eq_2)
qed

text \<open>
  The claim as stated, for every configuration, fails for \<open>maxAttempts = 0\<close>: the one
  call inside the window is denied, nothing is recorded, and a call long after the
  window has passed is denied as well.
\<close>

theorem rate_limiter_zero_attempts_counterexample:
  "fst (checks ''create_payment'' \<lparr>maxAttempts = 0, windowMs = 1000\<rparr> [0] Map.empty) = [False]
   \<and> attempts_of (snd (checks ''create_payment'' \<lparr>maxAttempts = 0, windowMs = 1000\<rparr> [0]
        Map.empty)) ''create_payment'' = []
   \<and> allowed (fst (check ''create_payment'' \<lparr>maxAttempts = 0, windowMs = 1000\<rparr> 5000
        (snd (checks ''create_payment'' \<lparr>maxAttempts = 0, windowMs = 1000\<rparr> [0]
           Map.empty)))) = False"
  by (simp add: check_unfolded attempts_of_def)

section \<open>Amount validation\<close>

text \<open>The four amounts of the scenario: the code decides them as the specification says.\<close>

lemma validateAmount_scenario:
  "valid (validateAmount (Dec (- 1) 0)) = False"
  "valid (validateAmount (Dec 1 7)) = False"
  "valid (validateAmount (Dec 31234567 (- 7))) = True"
  "valid (validateAmount (Dec 312345678 (- 8))) = False"
  by code_simp+

text \<open>
  Claim C6 says that \<open>validateAmount\<close> accepts a number exactly when it is finite, lies
  in \<open>0 < a \<le> 1,000,000\<close> and has at most 7 fractional digits. The code counts the
  digits behind the point of the printed number, and a number below \<open>0.000001\<close> prints in
  exponent notation: \<open>0.00000001\<close>, with 8 fractional digits, prints as \<open>1e-8\<close>, which has
  no point, so the code accepts it.
\<close>

theorem validateAmount_accepts_eight_decimals:
  "toString (Dec 1 (- 8)) = ''1e-8''
   \<and> decimalPlaces (Dec 1 (- 8)) = 0
   \<and> validateAmount (Dec 1 (- 8)) = \<lparr>valid = True, v_error = None\<rparr>
   \<and> fractionDigits (Dec 1 (- 8)) = 8
   \<and> spec_validAmount (Dec 1 (- 8)) = False"
  by code_simp


section \<open>Cross-tab reconciliation\<close>

lemma onStorageEvent_snapshot:
  "state (onStorageEvent (snapshot_event s) S) =
     (if lastUpdated (state S) < lastUpdated s then s else state S)"
  by (simp add: onStorageEvent_def snapshot_event_def notifyAllListeners_def)

lemma onStorageEvent_stale:
  "lastUpdated s \<le> lastUpdated (state S) \<Longrightarrow> onStorageEvent (snapshot_event s) S = S"
  by (simp add: onStorageEvent_def snapshot_event_def)

text \<open>
  Claim C7, as the code has it. An incoming snapshot replaces the state only if its
  \<open>lastUpdated\<close> is strictly greater than the local one, and is discarded otherwise.
  Hence for two snapshots \<open>s1\<close> and \<open>s2\<close> with \<open>lastUpdated s1 < lastUpdated s2\<close>: if
  \<open>lastUpdated s2\<close> is greater than the store's own \<open>lastUpdated\<close>, applying the two in
  either order leaves the store in the state \<open>s2\<close>; if it is not, both are discarded in
  either order and the store is left as it was.
\<close>

theorem last_writer_wins:
  assumes "lastUpdated s1 < lastUpdated s2"
  shows "state (onStorageEvent (snapshot_event s) S)
           = (if lastUpdated (state S) < lastUpdated s then s else state S)
       \<and> (lastUpdated (state S) < lastUpdated s2 \<longrightarrow>
            state (onStorageEvent (snapshot_event s2) (onStorageEvent (snapshot_event s1) S)) = s2
          \<and> state (onStorageEvent (snapshot_event s1) (onStorageEvent (snapshot_event s2) S)) = s2)
       \<and> (lastUpdated s2 \<le> lastUpdated (state S) \<longrightarrow>
            onStorageEvent (snapshot_event s2) (onStorageEvent (snapshot_event s1) S) = S
          \<and> onStorageEvent (snapshot_event s1) (onStorageEvent (snapshot_event s2) S) = S)"
proof -
  have newer: "lastUpdated (state S) < lastUpdated s2 \<longrightarrow>
            state (onStorageEvent (snapshot_event s2) (onStorageEvent (snapshot_event s1) S)) = s2
          \<and> state (onStorageEvent (snapshot_event s1) (onStorageEvent (snapshot_event s2) S)) = s2"
    using assms by (simp add: onStorageEvent_snapshot)
  have older: "lastUpdated s2 \<le> lastUpdated (state S) \<longrightarrow>
            onStorageEvent (snapshot_event s2) (onStorageEvent (snapshot_event s1) S) = S
          \<and> onStorageEvent (snapshot_event s1) (onStorageEvent (snapshot_event s2) S) = S"
    using assms by (simp add: onStorageEvent_stale)
  from newer older show ?thesis
    by (simp add: onStorageEvent_snapshot)
qed

theorem last_writer_wins_witness:
  "lastUpdated (DEFAULT_STATE ''merchant_1'' 2000) < lastUpdated (DEFAULT_STATE ''merchant_1'' 3000)
   \<and> lastUpdated (state (new_store ''merchant_1'' 1000))
       < lastUpdated (DEFAULT_STATE ''merchant_1'' 3000)
   \<and> state (onStorageEvent (snapshot_event (DEFAULT_STATE ''merchant_1'' 3000))
        (onStorageEvent (snapshot_event (DEFAULT_STATE ''merchant_1'' 2000))
           (new_store ''merchant_1'' 1000)))
       = DEFAULT_STATE ''merchant_1'' 3000
   \<and> state (onStorageEvent (snapshot_event (DEFAULT_STATE ''merchant_1'' 2000))
        (onStorageEvent (snapshot_event (DEFAULT_STATE ''merchant_1'' 3000))
           (new_store ''merchant_1'' 1000)))
       = DEFAULT_STATE ''merchant_1'' 3000"
proof -
  have a: "lastUpdated (DEFAULT_STATE ''merchant_1'' 2000)
             < lastUpdated (DEFAULT_STATE ''merchant_1'' 3000)"
    by (simp add: DEFAULT_STATE_def)
  have b: "lastUpdated (state (new_store ''merchant_1'' 1000))
             < lastUpdated (DEFAULT_STATE ''merchant_1'' 3000)"
    by (simp add: DEFAULT_STATE_def new_store_def)
  from last_writer_wins[OF a, where S = "new_store ''merchant_1'' 1000"] a b
  show ?thesis by blast
qed

text \<open>
  The claim as stated, for any two snapshots, fails when the store is newer than both:
  a store last updated at 5000 discards the snapshots of 2000 and 3000 in either order
  and does not end in the state of the later one.
\<close>

theorem stale_snapshots_counterexample:
  "lastUpdated (DEFAULT_STATE ''merchant_1'' 2000) < lastUpdated (DEFAULT_STATE ''merchant_1'' 3000)
   \<and> state (onStorageEvent (snapshot_event (DEFAULT_STATE ''merchant_1'' 3000))
        (onStorageEvent (snapshot_event (DEFAULT_STATE ''merchant_1'' 2000))
           (new_store ''merchant_1'' 5000)))
       \<noteq> DEFAULT_STATE ''merchant_1'' 3000
   \<and> state (onStorageEvent (snapshot_event (DEFAULT_STATE ''merchant_1'' 2000))
        (onStorageEvent (snapshot_event (DEFAULT_STATE ''merchant_1'' 3000))
           (new_store ''merchant_1'' 5000)))
       \<noteq> DEFAULT_STATE ''merchant_1'' 3000"
  by (simp add: onStorageEvent_snapshot) (simp add: DEFAULT_STATE_def new_store_def)

section \<open>Provider failure in createPayment\<close>

lemma slice_last_snoc:
  assumes "0 < n"
  shows "slice_last n (xs @ [e]) = slice_last (n - 1) xs @ [e]"
proof -
  from assms have "Suc (length xs) - n = length xs - (n - 1)" by arith
  moreover from assms have "Suc (length xs) - n - length xs = 0" by arith
  ultimately show ?thesis by (simp add: slice_last_def)
qed

lemma logError_last:
  "logError op err t r es = (tid, es') \<Longrightarrow>
     tid = generateTrackingId t r \<and> es' \<noteq> []
     \<and> e_trackingId (last es') = tid \<and> e_error (last es') = err"
  by (auto simp: logError_def Let_def maxErrors_def slice_last_snoc split: if_splits)

lemma failure_result:
  assumes "failure logged shown env site sys = (r, sys')"
  shows "r = \<lparr>success = False, data = None, error = shown,
              trackingId = Some (generateTrackingId (env_now env) (env_rnd env site))\<rparr>
     \<and> errorTracker sys' \<noteq> []
     \<and> e_trackingId (last (errorTracker sys')) = generateTrackingId (env_now env) (env_rnd env site)
     \<and> e_error (last (errorTracker sys')) = logged
     \<and> store sys' = store sys \<and> localStorage sys' = localStorage sys
     \<and> auditLogger sys' = auditLogger sys \<and> rateLimiter sys' = rateLimiter sys"
proof -
  obtain tid es where le:
    "logError ''createPayment'' logged (env_now env) (env_rnd env site) (errorTracker sys) = (tid, es)"
    by (cases "logError ''createPayment'' logged (env_now env) (env_rnd env site) (errorTracker sys)")
  from logError_last[OF le] assms le show ?thesis
    by (auto simp: failure_def)
qed






text \<open>
  Whatever the guards and the provider do, a call that does not succeed reports an error
  message and a tracking id and leaves the store as it was.
\<close>

lemma preOperationCheck_reason:
  "\<not> passed (preOperationCheck S d t0 t1 t2) \<Longrightarrow> reason (preOperationCheck S d t0 t1 t2) \<noteq> None"
  by (auto simp: preOperationCheck_def checkMasterToggle_def checkDomainAccess_def Let_def
      split: option.splits if_splits)

lemma validateAmount_error: "\<not> valid (validateAmount a) \<Longrightarrow> v_error (validateAmount a) \<noteq> None"
  by (auto simp: validateAmount_def split: if_splits)

lemma validateNote_error: "\<not> valid (validateNote n) \<Longrightarrow> v_error (validateNote n) \<noteq> None"
  by (auto simp: validateNote_def split: if_splits)

lemma createPayment_failure_writes_nothing:
  assumes run: "createPayment amt nt env sys = (r, sys')" and ns: "\<not> success r"
  shows "data r = None \<and> error r \<noteq> None \<and> trackingId r \<noteq> None \<and> store sys' = store sys"
proof -
  define sys1 where "sys1 = sys\<lparr>rateLimiter :=
     snd (check ''create_payment'' RATE_LIMITS_CREATE_PAYMENT (env_now env) (rateLimiter sys))\<rparr>"
  have keep: "store sys1 = store sys"
    by (simp add: sys1_def)
  have "\<exists>logged shown site. failure logged (Some shown) env site sys1 = (r, sys')"
  proof (cases "guardChainPasses amt nt env sys")
    case True
    show ?thesis
    proof (cases "provider_call (env_response env)")
      case (Inl e)
      then obtain msg where "provider_call (env_response env) = Inl (Error msg)"
        by (cases e) simp
      with run True show ?thesis
        by (simp add: createPayment_def guardChainPasses_def sys1_def split_beta Let_def) metis
    next
      case (Inr ic)
      show ?thesis
      proof (cases "createPaymentWithId (fst ic) amt nt (snd ic) (store sys)")
        case (Inl e)
        then obtain msg where
          "createPaymentWithId (fst ic) amt nt (snd ic) (store sys) = Inl (Error msg)"
          by (cases e) simp
        with run True Inr show ?thesis
          by (simp add: createPayment_def guardChainPasses_def sys1_def split_beta Let_def) metis
      next
        case (Inr ps)
        with run True \<open>provider_call (env_response env) = Inr ic\<close> ns show ?thesis
          by (auto simp: createPayment_def guardChainPasses_def sys1_def split_beta Let_def)
      qed
    qed
  next
    case False
    show ?thesis
    proof (cases "allowed (fst (check ''create_payment'' RATE_LIMITS_CREATE_PAYMENT
                     (env_now env) (rateLimiter sys)))")
      case False
      with run show ?thesis
        by (simp add: createPayment_def sys1_def split_beta Let_def) blast
    next
      case lim: True
      show ?thesis
      proof (cases "valid (validateAmount amt)")
        case False
        then obtain e where "v_error (validateAmount amt) = Some e"
          using validateAmount_error by blast
        with run lim False show ?thesis
          by (simp add: createPayment_def sys1_def split_beta Let_def) metis
      next
        case am: True
        show ?thesis
        proof (cases "valid (validateNote nt)")
          case False
          then obtain e where "v_error (validateNote nt) = Some e"
            using validateNote_error by blast
          with run lim am False show ?thesis
            by (simp add: createPayment_def sys1_def split_beta Let_def) metis
        next
          case no: True
          let ?c = "preOperationCheck (store sys) (Some ''flashpay'')
             (generateTrackingId (env_now env) (env_rnd env 3))
             (generateTrackingId (env_now env) (env_rnd env 4))
             (generateTrackingId (env_now env) (env_rnd env 5))"
          from \<open>\<not> guardChainPasses amt nt env sys\<close> lim am no have np: "\<not> passed ?c"
            by (simp add: guardChainPasses_def)
          then obtain e where "reason ?c = Some e"
            using preOperationCheck_reason by blast
          with run lim am no np show ?thesis
            by (simp add: createPayment_def sys1_def split_beta Let_def) metis
        qed
      qed
    qed
  qed
  then obtain logged shown site where f: "failure logged (Some shown) env site sys1 = (r, sys')"
    by blast
  from failure_result[OF f] keep show ?thesis by simp
qed


section \<open>Payment statistics\<close>

lemma length_filter_insort:
  "length (filter P (insort_key f x xs)) = length (filter P (x # xs))"
  by (induction xs) auto

lemma length_filter_sort:
  "length (filter P (sort_key f xs)) = length (filter P xs)"
  by (induction xs) (auto simp: length_filter_insort)

lemma stats_counts:
  "totalPayments (getPaymentStats S) = length (getAllPayments S)
   \<and> paidPayments (getPaymentStats S)
       = length (filter (\<lambda>p. status p = PAID) (getAllPayments S))
   \<and> pendingPayments (getPaymentStats S)
       = length (filter (\<lambda>p. status p = PENDING) (getAllPayments S))
   \<and> failedPayments (getPaymentStats S)
       = length (filter (\<lambda>p. status p = FAILED) (getAllPayments S))
   \<and> cancelledPayments (getPaymentStats S)
       = length (filter (\<lambda>p. status p = CANCELLED) (getAllPayments S))"
  by (simp add: getPaymentStats_def getAllPayments_def Let_def length_filter_sort)

lemma stats_own_records_only:
  "getPaymentStats (S\<lparr>state := (state S)\<lparr>payments := ownPayments S\<rparr>\<rparr>) = getPaymentStats S"
  by (simp add: getPaymentStats_def ownPayments_def activeMerchantId_def Let_def)

lemma stats_rate:
  "conversionRate (getPaymentStats S) =
     (if totalPayments (getPaymentStats S) = 0 then Dec 0 0
      else num_mul (num_div (Dec (int (paidPayments (getPaymentStats S))) 0)
                            (Dec (int (totalPayments (getPaymentStats S))) 0))
                   (Dec 100 0))"
  by (simp add: getPaymentStats_def Let_def)

lemma stats_amount:
  "totalAmount (getPaymentStats S) =
     foldl num_add (Dec 0 0) (map amount (filter (\<lambda>p. status p = PAID) (ownPayments S)))"
  by (simp add: getPaymentStats_def Let_def ownPayments_def foldl_map)

text \<open>The arithmetic of the scenario: \<open>0 + 5\<close> is 5, and \<open>1 / 1 * 100\<close> is 100.\<close>

lemma num_add_zero_five: "num_add (Dec 0 0) (Dec 5 0) = Dec 5 0"
  by code_simp

lemma rate_one_of_one: "num_mul (num_div (Dec 1 0) (Dec 1 0)) (Dec 100 0) = Dec 1 2"
  by code_simp

lemma hundred: "num_eq (Dec 1 2) (Dec 100 0)" "toString (Dec 1 2) = ''100''"
  by code_simp+

text \<open>
  Doubles round: the sum of 0.1, 0.2 and 0.3, added in this order from 0, is
  0.6000000000000001, and three of seven is 42.857142857142854 percent.
\<close>

lemma sum_of_tenths:
  "num_add (num_add (num_add (Dec 0 0) (Dec 1 (- 1))) (Dec 2 (- 1))) (Dec 3 (- 1))
     = Dec 6000000000000001 (- 16)"
  by code_simp

lemma rate_three_of_seven:
  "num_mul (num_div (Dec 3 0) (Dec 7 0)) (Dec 100 0) = Dec 42857142857142854 (- 15)"
  by code_simp

lemma printed_doubles:
  "toString (Dec 6000000000000001 (- 16)) = ''0.6000000000000001''"
  "toString (Dec 42857142857142854 (- 15)) = ''42.857142857142854''"
  by code_simp+

lemma stats_scenario:
  assumes fresh: "ownPayments S = []" and idle: "processingLocks S = {}"
  shows "\<exists>p S1 S2. store_createPayment t rnd (Dec 5 0) ''coffee'' S = Inr (p, S1)
       \<and> status p = PENDING
       \<and> updatePaymentStatus (payment_id p) PAID (Some ''abc'') t' S1 = (True, S2)
       \<and> totalPayments (getPaymentStats S2) = 1
       \<and> paidPayments (getPaymentStats S2) = 1
       \<and> totalAmount (getPaymentStats S2) = Dec 5 0
       \<and> num_eq (conversionRate (getPaymentStats S2)) (Dec 100 0)
       \<and> toString (conversionRate (getPaymentStats S2)) = ''100''"
proof -
  define p where "p = \<lparr>payment_id = dec_string t @ ''-'' @ rnd,
      merchantId = activeMerchantId S, amount = Dec 5 0, payment_note = ''coffee'',
      status = PENDING, createdAt = t, paidAt = None, txid = None\<rparr>"
  define S1 where "S1 = notify SecPayments (saveToStorage (unshift p S))"
  define S2 where "S2 = notify SecPayments (saveToStorage
      (S1\<lparr>state := (state S1)\<lparr>payments :=
             set_status PAID (Some ''abc'') t' p # payments (state S)\<rparr>\<rparr>))"
  have act1: "activeMerchantId S1 = activeMerchantId S"
    by (simp add: S1_def activeMerchantId_def notify_def saveToStorage_def unshift_def)
  have pay1: "payments (state S1) = p # payments (state S)"
    by (simp add: S1_def notify_def saveToStorage_def unshift_def)
  have c: "store_createPayment t rnd (Dec 5 0) ''coffee'' S = Inr (p, S1)"
    using idle
    by (simp add: store_createPayment_def Let_def p_def S1_def activeMerchantId_def
        notify_def saveToStorage_def unshift_def)
  have g: "getPayment S1 (payment_id p) = Some p"
    by (simp add: getPayment_def pay1 act1) (simp add: p_def)
  have u: "updatePaymentStatus (payment_id p) PAID (Some ''abc'') t' S1 = (True, S2)"
    by (simp add: updatePaymentStatus_def g pay1 S2_def) (simp add: p_def)
  have "activeMerchantId S2 = activeMerchantId S1"
    by (simp add: S2_def activeMerchantId_def notify_def saveToStorage_def)
  with act1 have act2: "activeMerchantId S2 = activeMerchantId S"
    by simp
  have own2: "ownPayments S2 = [set_status PAID (Some ''abc'') t' p]"
    using fresh unfolding ownPayments_def act2
    by (simp add: S2_def notify_def saveToStorage_def set_status_def p_def)
  have st: "getPaymentStats S2 =
      \<lparr>totalPayments = 1, paidPayments = 1, pendingPayments = 0, failedPayments = 0,
       cancelledPayments = 0, totalAmount = Dec 5 0, conversionRate = Dec 1 2\<rparr>"
    using own2 unfolding ownPayments_def
    by (simp add: getPaymentStats_def Let_def set_status_def p_def
        num_add_zero_five rate_one_of_one)
  show ?thesis
    using c u st hundred
    by (intro exI[of _ p] exI[of _ S1] exI[of _ S2]) (simp add: p_def)
qed

lemma stats_mixed_store:
  "getPaymentStats mixed_store =
     \<lparr>totalPayments = 7, paidPayments = 3, pendingPayments = 2, failedPayments = 1,
      cancelledPayments = 1, totalAmount = Dec 6000000000000001 (- 16),
      conversionRate = Dec 42857142857142854 (- 15)\<rparr>"
  by (simp add: getPaymentStats_def mixed_store_def stats_record_def activeMerchantId_def
      new_store_def DEFAULT_STATE_def Let_def sum_of_tenths rate_three_of_seven)

text \<open>
  Claim C9. \<open>getPaymentStats\<close> reports on the active merchant only: dropping every
  foreign record from the list does not change its result, and its counts are the
  numbers of records that \<open>getAllPayments\<close> returns in all and per status. Its total
  amount is the sum of the amounts of the active merchant's PAID records, added as
  doubles in list order from 0. The conversion rate is \<open>paidPayments / totalPayments *
  100\<close> in doubles, and 0 when \<open>totalPayments\<close> is 0. In a fresh merchant context (no
  record of the active merchant, no creation in progress), creating a payment of amount 5
  with note "coffee" gives a PENDING record, and after \<open>updatePaymentStatus\<close> of its id to
  PAID with txid "abc" the statistics report \<open>totalPayments = 1\<close>, \<open>paidPayments = 1\<close>,
  \<open>totalAmount = 5\<close> and \<open>conversionRate = 100\<close>. On a store with seven own records, three
  of them paid with 0.1, 0.2 and 0.3, and a paid foreign record of 50, the statistics
  are 7, 3, 2, 1, 1, a total of 0.6000000000000001 and a rate of 42.857142857142854.
\<close>

theorem stats_for_active_merchant:
  "getPaymentStats (S\<lparr>state := (state S)\<lparr>payments := ownPayments S\<rparr>\<rparr>) = getPaymentStats S
   \<and> totalPayments (getPaymentStats S) = length (getAllPayments S)
   \<and> paidPayments (getPaymentStats S)
       = length (filter (\<lambda>p. status p = PAID) (getAllPayments S))
   \<and> pendingPayments (getPaymentStats S)
       = length (filter (\<lambda>p. status p = PENDING) (getAllPayments S))
   \<and> failedPayments (getPaymentStats S)
       = length (filter (\<lambda>p. status p = FAILED) (getAllPayments S))
   \<and> cancelledPayments (getPaymentStats S)
       = length (filter (\<lambda>p. status p = CANCELLED) (getAllPayments S))
   \<and> totalAmount (getPaymentStats S)
       = foldl num_add (Dec 0 0) (map amount (filter (\<lambda>p. status p = PAID) (ownPayments S)))
   \<and> conversionRate (getPaymentStats S)
       = (if totalPayments (getPaymentStats S) = 0 then Dec 0 0
          else num_mul (num_div (Dec (int (paidPayments (getPaymentStats S))) 0)
                                (Dec (int (totalPayments (getPaymentStats S))) 0))
                       (Dec 100 0))
   \<and> (ownPayments S = [] \<and> processingLocks S = {} \<longrightarrow>
        (\<exists>p S1 S2. store_createPayment t rnd (Dec 5 0) ''coffee'' S = Inr (p, S1)
           \<and> status p = PENDING
           \<and> updatePaymentStatus (payment_id p) PAID (Some ''abc'') t' S1 = (True, S2)
           \<and> totalPayments (getPaymentStats S2) = 1
           \<and> paidPayments (getPaymentStats S2) = 1
           \<and> totalAmount (getPaymentStats S2) = Dec 5 0
           \<and> num_eq (conversionRate (getPaymentStats S2)) (Dec 100 0)
           \<and> toString (conversionRate (getPaymentStats S2)) = ''100''))
   \<and> getPaymentStats mixed_store
       = \<lparr>totalPayments = 7, paidPayments = 3, pendingPayments = 2, failedPayments = 1,
          cancelledPayments = 1, totalAmount = Dec 6000000000000001 (- 16),
          conversionRate = Dec 42857142857142854 (- 15)\<rparr>
   \<and> toString (totalAmount (getPaymentStats mixed_store)) = ''0.6000000000000001''
   \<and> toString (conversionRate (getPaymentStats mixed_store)) = ''42.857142857142854''"
  using stats_own_records_only[of S] stats_counts[of S] stats_amount[of S] stats_rate[of S]
    stats_scenario[of S t rnd t'] stats_mixed_store printed_doubles
  by simp

theorem stats_for_active_merchant_witness:
  "ownPayments (new_store ''merchant_1'' 1000) = []
   \<and> processingLocks (new_store ''merchant_1'' 1000) = {}
   \<and> (\<exists>p S1 S2.
         store_createPayment 2000 ''k3x9'' (Dec 5 0) ''coffee'' (new_store ''merchant_1'' 1000)
           = Inr (p, S1)
         \<and> status p = PENDING
         \<and> updatePaymentStatus (payment_id p) PAID (Some ''abc'') 3000 S1 = (True, S2)
         \<and> totalPayments (getPaymentStats S2) = 1
         \<and> paidPayments (getPaymentStats S2) = 1
         \<and> totalAmount (getPaymentStats S2) = Dec 5 0
         \<and> num_eq (conversionRate (getPaymentStats S2)) (Dec 100 0)
         \<and> toString (conversionRate (getPaymentStats S2)) = ''100'')"
proof -
  have a: "ownPayments (new_store ''merchant_1'' 1000) = []"
    by (simp add: ownPayments_def new_store_def DEFAULT_STATE_def)
  have b: "processingLocks (new_store ''merchant_1'' 1000) = {}"
    by (simp add: new_store_def)
  from stats_for_active_merchant[of "new_store ''merchant_1'' 1000" 2000 "''k3x9''" 3000] a b
  show ?thesis by blast
qed

section \<open>Merchant isolation on status writes\<close>


text \<open>
  With the store's ids pairwise distinct, the claim holds as stated, for PAID records
  (claim C1) and for foreign ones alike.
\<close>

lemma find_distinct_ids:
  "distinct (map f xs) \<Longrightarrow> x \<in> set xs \<Longrightarrow> find (\<lambda>q. f q = f x) xs = Some x"
  by (induction xs) (auto simp: image_iff)

lemma update_rejected_with_distinct_ids:
  assumes "distinct (map payment_id (payments (state S)))"
    and "p \<in> set (payments (state S))"
    and "status p = PAID \<or> merchantId p \<noteq> activeMerchantId S"
  shows "updatePaymentStatus (payment_id p) st tx now S = (False, S)"
proof -
  from assms(1,2)
  have "find (\<lambda>q. payment_id q = payment_id p) (payments (state S)) = Some p"
    by (rule find_distinct_ids)
  with assms(3) show ?thesis
    by (auto simp: updatePaymentStatus_def getPayment_def)
qed

end
